theory Spec2Isabelle
  imports Complex_Main "HOL-Library.Multiset"
begin

section \<open>Text\<close>

text \<open>
  Python strings are modelled as \<^typ>\<open>string\<close>, restricted to ASCII: the character
  classes below are those of \<^verbatim>\<open>str.isspace\<close>, \<^verbatim>\<open>\s\<close>, \<^verbatim>\<open>\d\<close>, \<^verbatim>\<open>str.lower\<close> and
  \<^verbatim>\<open>str.title\<close> on code points below 128.
\<close>

definition ascii_upper :: string where
  "ascii_upper = ''ABCDEFGHIJKLMNOPQRSTUVWXYZ''"

definition ascii_lower :: string where
  "ascii_lower = ''abcdefghijklmnopqrstuvwxyz''"

definition ascii_digits :: string where
  "ascii_digits = ''0123456789''"

definition ascii_space :: string where
  "ascii_space = [CHR 0x09, CHR 0x0A, CHR 0x0B, CHR 0x0C, CHR 0x0D,
                  CHR 0x1C, CHR 0x1D, CHR 0x1E, CHR 0x1F, CHR 0x20]"

definition isspace :: "char \<Rightarrow> bool" where
  "isspace c = (c \<in> set ascii_space)"

definition isdigit :: "char \<Rightarrow> bool" where
  "isdigit c = (c \<in> set ascii_digits)"

definition iscased :: "char \<Rightarrow> bool" where
  "iscased c = (c \<in> set ascii_upper \<or> c \<in> set ascii_lower)"

definition lower_char :: "char \<Rightarrow> char" where
  "lower_char c = (case map_of (zip ascii_upper ascii_lower) c of Some d \<Rightarrow> d | None \<Rightarrow> c)"

definition upper_char :: "char \<Rightarrow> char" where
  "upper_char c = (case map_of (zip ascii_lower ascii_upper) c of Some d \<Rightarrow> d | None \<Rightarrow> c)"

text \<open>\<^verbatim>\<open>s.lower()\<close>\<close>

definition lower :: "string \<Rightarrow> string" where
  "lower s = map lower_char s"

text \<open>
  \<^verbatim>\<open>s.title()\<close>: a character that follows a cased character is lowercased, any other
  character is uppercased.
\<close>

fun title_from :: "bool \<Rightarrow> string \<Rightarrow> string" where
  "title_from previous_is_cased [] = []"
| "title_from previous_is_cased (c # cs) =
     (if previous_is_cased then lower_char c else upper_char c) # title_from (iscased c) cs"

definition title :: "string \<Rightarrow> string" where
  "title s = title_from False s"

text \<open>\<^verbatim>\<open>s.strip()\<close>\<close>

definition strip :: "string \<Rightarrow> string" where
  "strip s = rev (dropWhile isspace (rev (dropWhile isspace s)))"

text \<open>\<^verbatim>\<open>re.sub(r"\s+", "", s)\<close>, \<^verbatim>\<open>re.sub(r"[^\d\+]", "", s)\<close> and \<^verbatim>\<open>re.sub(r"\D", "", s)\<close>\<close>

definition remove_whitespace :: "string \<Rightarrow> string" where
  "remove_whitespace s = filter (\<lambda>c. \<not> isspace c) s"

definition keep_digits_plus :: "string \<Rightarrow> string" where
  "keep_digits_plus s = filter (\<lambda>c. isdigit c \<or> c = CHR ''+'') s"

definition keep_digits :: "string \<Rightarrow> string" where
  "keep_digits s = filter isdigit s"

section \<open>Cells and numbers\<close>

text \<open>
  \<^verbatim>\<open>safe_read_csv\<close> reads every column as text and turns the cells \<^verbatim>\<open>""\<close>, \<^verbatim>\<open>"NA"\<close> and
  \<^verbatim>\<open>"NaN"\<close> into the null marker, the float NaN. A cell of a raw table is therefore a
  string or NaN; \<open>None\<close> is NaN.
\<close>

type_synonym cell = "string option"

definition safe_read_cell :: "string \<Rightarrow> cell" where
  "safe_read_cell s = (if s \<in> set ['''', ''NA'', ''NaN''] then None else Some s)"

text \<open>\<^verbatim>\<open>not v\<close> and \<^verbatim>\<open>str(v)\<close> on a cell: NaN is truthy and prints as \<^verbatim>\<open>nan\<close>.\<close>

definition py_not :: "cell \<Rightarrow> bool" where
  "py_not v = (case v of None \<Rightarrow> False | Some s \<Rightarrow> s = [])"

definition py_str :: "cell \<Rightarrow> string" where
  "py_str v = (case v of None \<Rightarrow> ''nan'' | Some s \<Rightarrow> s)"

text \<open>
  A float is modelled by the decimal number that \<^verbatim>\<open>str\<close> prints for it (the shortest
  literal that reads back as the same float), so \<open>Fin (2005 / 1000)\<close> is the Python
  float \<^verbatim>\<open>2.005\<close>. Arithmetic on \<open>Fin\<close> is exact; binary rounding error is outside
  the model.
\<close>

datatype pyfloat = Fin rat | PInf | NInf | NaN

datatype error =
    NumberParseException
  | ParserError
  | InvalidOperation
  | ValueError
  | TypeError
  | IntCastingNaNError

text \<open>Sequencing of steps that may raise: the first exception ends the computation.\<close>

definition bind_err :: "error + 'a \<Rightarrow> ('a \<Rightarrow> error + 'b) \<Rightarrow> error + 'b" where
  "bind_err m f = (case m of Inl e \<Rightarrow> Inl e | Inr x \<Rightarrow> f x)"

section \<open>Library interface\<close>

text \<open>
  The pipeline calls pandas, phonenumbers and the clock. What these return for a given
  text is a parameter of the model, so the general theorems below hold whatever they
  return:
  \<^item> \<open>to_numeric_text\<close>: \<^verbatim>\<open>pd.to_numeric(errors='coerce')\<close> on one text cell, NaN when
    the text is not a number;
  \<^item> \<open>to_datetime_text\<close>: \<^verbatim>\<open>pd.to_datetime(utc=True)\<close> on one text, in nanoseconds since
    the epoch, \<open>None\<close> when the text does not parse (the strict call raises, the call
    with \<^verbatim>\<open>errors="coerce"\<close> returns NaT);
  \<^item> \<open>timestamp_str\<close>: the text of a timestamp, as \<^verbatim>\<open>astype(str)\<close> renders it;
  \<^item> \<open>phonenumbers_parse\<close>, \<open>is_valid_number\<close>, \<open>format_number\<close>: the phonenumbers
    calls, the last one with \<^verbatim>\<open>PhoneNumberFormat.E164\<close>;
  \<^item> \<open>utc_now\<close>: \<^verbatim>\<open>datetime.now(timezone.utc)\<close>, read once by \<^verbatim>\<open>clean_orders\<close>;
  \<^item> \<open>to_period_M\<close>: the calendar month of a timestamp, \<^verbatim>\<open>dt.to_period('M')\<close>.
\<close>

record PhoneNumber =
  country_code :: int
  national_number :: int

record libs =
  to_numeric_text :: "string \<Rightarrow> pyfloat"
  to_datetime_text :: "string \<Rightarrow> int option"
  timestamp_str :: "int \<Rightarrow> string"
  phonenumbers_parse :: "string \<Rightarrow> string \<Rightarrow> error + PhoneNumber"
  is_valid_number :: "PhoneNumber \<Rightarrow> bool"
  format_number :: "PhoneNumber \<Rightarrow> string"
  utc_now :: int
  to_period_M :: "int \<Rightarrow> int"

section \<open>Field normalizers\<close>

definition normalize_email :: "cell \<Rightarrow> cell" where
  "normalize_email email =
     (if py_not email \<or> strip (py_str email) = [] then None
      else Some (remove_whitespace (lower (py_str email))))"

definition default_region :: string where
  "default_region = ''IN''"

text \<open>
  \<^verbatim>\<open>normalize_phone\<close>: the bare \<^verbatim>\<open>except: pass\<close> swallows whatever the parse raises, and
  an invalid number falls through to the digits fallback as well.
\<close>

definition normalize_phone :: "libs \<Rightarrow> cell \<Rightarrow> string \<Rightarrow> cell" where
  "normalize_phone lib phone region =
     (if py_not phone \<or> strip (py_str phone) = [] then None
      else
        let cleaned = keep_digits_plus (py_str phone);
            attempt = bind_err (phonenumbers_parse lib cleaned region)
                        (\<lambda>parsed. Inr (if is_valid_number lib parsed
                                        then Some (format_number lib parsed) else None))
        in case attempt of
             Inr (Some e164) \<Rightarrow> Some e164
           | _ \<Rightarrow> (let digits = keep_digits cleaned
                   in if length digits \<ge> 8 then Some digits else None))"

text \<open>
  \<^verbatim>\<open>pd.to_datetime(val, utc=True)\<close> raises on text that does not parse;
  with \<^verbatim>\<open>errors="coerce"\<close> it returns NaT instead. NaN converts to NaT in both.
  A timestamp column holds \<open>Some t\<close> or NaT, \<open>None\<close>.
\<close>

definition to_datetime_raise :: "libs \<Rightarrow> cell \<Rightarrow> error + int option" where
  "to_datetime_raise lib val =
     (case val of
        None \<Rightarrow> Inr None
      | Some s \<Rightarrow> (case to_datetime_text lib s of
                    None \<Rightarrow> Inl ParserError
                  | Some t \<Rightarrow> Inr (Some t)))"

definition to_datetime_coerce :: "libs \<Rightarrow> cell \<Rightarrow> int option" where
  "to_datetime_coerce lib val = (case val of None \<Rightarrow> None | Some s \<Rightarrow> to_datetime_text lib s)"

definition parse_date_safe :: "libs \<Rightarrow> cell \<Rightarrow> int option" where
  "parse_date_safe lib val =
     (if py_not val \<or> strip (py_str val) = [] then None
      else case to_datetime_raise lib val of
             Inr t \<Rightarrow> t
           | Inl e \<Rightarrow> to_datetime_coerce lib val)"

subsection \<open>Decimal\<close>

text \<open>
  \<^verbatim>\<open>decimal.Decimal\<close> values: a finite decimal is its exact value; the constructor does
  not round. \<open>Infinity True\<close> is the negative infinity.
\<close>

datatype decimal = Finite rat | Infinity bool | QNaN | SNaN

definition digit_value :: "char \<Rightarrow> int" where
  "digit_value c =
     (case map_of (zip ascii_digits [0, 1, 2, 3, 4, 5, 6, 7, 8, 9]) c of
        Some n \<Rightarrow> n | None \<Rightarrow> 0)"

definition int_of_digits :: "string \<Rightarrow> int" where
  "int_of_digits s = foldl (\<lambda>n c. 10 * n + digit_value c) 0 s"

definition split_sign :: "string \<Rightarrow> bool \<times> string" where
  "split_sign s =
     (case s of
        [] \<Rightarrow> (False, [])
      | c # r \<Rightarrow> if c = CHR ''-'' then (True, r)
                 else if c = CHR ''+'' then (False, r) else (False, s))"

text \<open>The exponent \<^verbatim>\<open>[-+]?\d+\<close>.\<close>

definition parse_exponent :: "string \<Rightarrow> int option" where
  "parse_exponent s =
     (let (neg, ds) = split_sign s
      in if ds \<noteq> [] \<and> list_all isdigit ds
         then Some (if neg then - int_of_digits ds else int_of_digits ds)
         else None)"

definition scale10 :: "int \<Rightarrow> int \<Rightarrow> rat" where
  "scale10 n e = (if e \<ge> 0 then of_int n * 10 ^ nat e else of_int n / 10 ^ nat (- e))"

text \<open>
  The number \<^verbatim>\<open>(?=\d|\.\d)\d*(\.\d*)?(E[-+]?\d+)?\<close> of the constructor's grammar, on
  lowercased text: at least one digit, an optional fraction, an optional exponent.
\<close>

definition parse_number :: "string \<Rightarrow> rat option" where
  "parse_number s =
     (let ip = takeWhile isdigit s;
          r1 = dropWhile isdigit s;
          (fp, r2) = (case r1 of
                        [] \<Rightarrow> ([], [])
                      | c # r \<Rightarrow> if c = CHR ''.''
                                 then (takeWhile isdigit r, dropWhile isdigit r)
                                 else ([], r1))
      in if ip = [] \<and> fp = [] then None
         else case r2 of
                [] \<Rightarrow> Some (scale10 (int_of_digits (ip @ fp)) (- int (length fp)))
              | c # r \<Rightarrow>
                  if c = CHR ''e''
                  then (case parse_exponent r of
                          None \<Rightarrow> None
                        | Some e \<Rightarrow> Some (scale10 (int_of_digits (ip @ fp)) (e - int (length fp))))
                  else None)"

text \<open>
  \<^verbatim>\<open>Decimal(text)\<close>: surrounding whitespace and underscores are removed, then the text
  is an optional sign followed by a number, an infinity or a NaN, in any letter case;
  anything else raises \<^verbatim>\<open>InvalidOperation\<close>.
\<close>

definition Decimal :: "string \<Rightarrow> error + decimal" where
  "Decimal arg =
     (let (neg, body) = split_sign (filter (\<lambda>c. c \<noteq> CHR ''_'') (strip arg));
          l = lower body
      in if l = ''inf'' \<or> l = ''infinity'' then Inr (Infinity neg)
         else if take 3 l = ''nan'' \<and> list_all isdigit (drop 3 l) then Inr QNaN
         else if take 4 l = ''snan'' \<and> list_all isdigit (drop 4 l) then Inr SNaN
         else case parse_number l of
                None \<Rightarrow> Inl InvalidOperation
              | Some r \<Rightarrow> Inr (Finite (if neg then - r else r)))"

text \<open>\<^verbatim>\<open>ROUND_HALF_UP\<close>: to the nearest integer, a tie away from zero.\<close>

definition round_half_up :: "rat \<Rightarrow> int" where
  "round_half_up r = (if r \<ge> 0 then \<lfloor>r + 1 / 2\<rfloor> else - \<lfloor>- r + 1 / 2\<rfloor>)"

text \<open>
  \<^verbatim>\<open>d.quantize(Decimal("1." + "0" * ndigits), rounding=ROUND_HALF_UP)\<close> in the default
  context (28 digits of precision, \<^verbatim>\<open>InvalidOperation\<close> trapped): an infinity and a
  signalling NaN raise, a quiet NaN is returned as it is, and a result of more than 28
  digits raises.
\<close>

definition quantize :: "nat \<Rightarrow> decimal \<Rightarrow> error + decimal" where
  "quantize ndigits d =
     (case d of
        Finite r \<Rightarrow>
          (let q = round_half_up (r * 10 ^ ndigits)
           in if \<bar>q\<bar> \<ge> 10 ^ 28 then Inl InvalidOperation
              else Inr (Finite (of_int q / 10 ^ ndigits)))
      | Infinity neg \<Rightarrow> Inl InvalidOperation
      | QNaN \<Rightarrow> Inr QNaN
      | SNaN \<Rightarrow> Inl InvalidOperation)"

text \<open>\<^verbatim>\<open>float(d)\<close>\<close>

definition float_of_decimal :: "decimal \<Rightarrow> error + pyfloat" where
  "float_of_decimal d =
     (case d of
        Finite r \<Rightarrow> Inr (Fin r)
      | Infinity neg \<Rightarrow> Inr (if neg then NInf else PInf)
      | QNaN \<Rightarrow> Inr NaN
      | SNaN \<Rightarrow> Inl ValueError)"

text \<open>
  The argument of \<^verbatim>\<open>money_round\<close> is a float or a text. \<^verbatim>\<open>Decimal(str(x))\<close> of a float
  reads back the literal that \<^verbatim>\<open>str\<close> printed, which is the number the float is
  modelled by.
\<close>

datatype pyval = PyStr string | PyFloat pyfloat

definition Decimal_str :: "pyval \<Rightarrow> error + decimal" where
  "Decimal_str x =
     (case x of
        PyStr s \<Rightarrow> Decimal s
      | PyFloat (Fin r) \<Rightarrow> Inr (Finite r)
      | PyFloat PInf \<Rightarrow> Inr (Infinity False)
      | PyFloat NInf \<Rightarrow> Inr (Infinity True)
      | PyFloat NaN \<Rightarrow> Inr QNaN)"

text \<open>The body of the \<^verbatim>\<open>try\<close> block of \<^verbatim>\<open>money_round\<close>, then the function with its handler.\<close>

definition money_round_try :: "pyval \<Rightarrow> nat \<Rightarrow> error + pyfloat" where
  "money_round_try x ndigits =
     bind_err (Decimal_str x) (\<lambda>v. bind_err (quantize ndigits v) float_of_decimal)"

definition money_round_n :: "pyval \<Rightarrow> nat \<Rightarrow> pyfloat" where
  "money_round_n x ndigits = (case money_round_try x ndigits of Inr f \<Rightarrow> f | Inl e \<Rightarrow> NaN)"

definition money_round :: "pyval \<Rightarrow> pyfloat" where
  "money_round x = money_round_n x 2"

section \<open>The field normalizers as calls\<close>

text \<open>
  The normalizers above are the functions on the cells of a table, a text or NaN, on
  which the test \<^verbatim>\<open>not v\<close> returns. As Python functions they accept any object. The calls
  below are the same bodies on an object, with what each step may raise: \<^verbatim>\<open>pd.NA\<close> has no
  truth value, so \<^verbatim>\<open>not v\<close> raises \<^verbatim>\<open>TypeError\<close>, and the call of \<^verbatim>\<open>pd.to_datetime\<close> with
  \<^verbatim>\<open>errors="coerce"\<close> in the handler of \<^verbatim>\<open>parse_date_safe\<close> is a call like any other, given
  as \<open>coerce_call\<close>. \<open>Inl\<close> is an exception that leaves the function.
\<close>

datatype pyobject = Text string | FloatNaN | NoneObject | PandasNA

definition of_cell :: "cell \<Rightarrow> pyobject" where
  "of_cell c = (case c of None \<Rightarrow> FloatNaN | Some s \<Rightarrow> Text s)"

text \<open>\<^verbatim>\<open>not v\<close> and \<^verbatim>\<open>str(v)\<close> on an object.\<close>

definition not_object :: "pyobject \<Rightarrow> error + bool" where
  "not_object v =
     (case v of
        Text s \<Rightarrow> Inr (s = [])
      | FloatNaN \<Rightarrow> Inr False
      | NoneObject \<Rightarrow> Inr True
      | PandasNA \<Rightarrow> Inl TypeError)"

definition str_object :: "pyobject \<Rightarrow> string" where
  "str_object v =
     (case v of
        Text s \<Rightarrow> s
      | FloatNaN \<Rightarrow> ''nan''
      | NoneObject \<Rightarrow> ''None''
      | PandasNA \<Rightarrow> ''<NA>'')"

definition normalize_email_call :: "pyobject \<Rightarrow> error + cell" where
  "normalize_email_call email =
     bind_err (not_object email) (\<lambda>empty.
       if empty \<or> strip (str_object email) = [] then Inr None
       else Inr (Some (remove_whitespace (lower (str_object email)))))"

definition normalize_phone_call :: "libs \<Rightarrow> pyobject \<Rightarrow> string \<Rightarrow> error + cell" where
  "normalize_phone_call lib phone region =
     bind_err (not_object phone) (\<lambda>empty.
       if empty \<or> strip (str_object phone) = [] then Inr None
       else
         let cleaned = keep_digits_plus (str_object phone);
             attempt = bind_err (phonenumbers_parse lib cleaned region)
                         (\<lambda>parsed. Inr (if is_valid_number lib parsed
                                         then Some (format_number lib parsed) else None))
         in case attempt of
              Inr (Some e164) \<Rightarrow> Inr (Some e164)
            | _ \<Rightarrow> (let digits = keep_digits cleaned
                    in Inr (if length digits \<ge> 8 then Some digits else None)))"

text \<open>
  \<^verbatim>\<open>pd.to_datetime(val, utc=True)\<close> on an object: a text is parsed and may raise, the
  missing values convert to NaT.
\<close>

definition to_datetime_call :: "libs \<Rightarrow> pyobject \<Rightarrow> error + int option" where
  "to_datetime_call lib val =
     (case val of Text s \<Rightarrow> to_datetime_raise lib (Some s) | _ \<Rightarrow> Inr None)"

definition parse_date_safe_call ::
  "libs \<Rightarrow> (pyobject \<Rightarrow> error + int option) \<Rightarrow> pyobject \<Rightarrow> error + int option" where
  "parse_date_safe_call lib coerce_call val =
     bind_err (not_object val) (\<lambda>empty.
       if empty \<or> strip (str_object val) = [] then Inr None
       else case to_datetime_call lib val of
              Inr t \<Rightarrow> Inr t
            | Inl e \<Rightarrow> coerce_call val)"

text \<open>
  The call with \<^verbatim>\<open>errors="coerce"\<close> as pandas documents it: it returns, with NaT where the
  text does not parse.
\<close>

definition documented_coerce :: "libs \<Rightarrow> pyobject \<Rightarrow> error + int option" where
  "documented_coerce lib val =
     (case val of Text s \<Rightarrow> Inr (to_datetime_text lib s) | _ \<Rightarrow> Inr None)"

text \<open>\<^verbatim>\<open>money_round\<close>: the whole body is the \<^verbatim>\<open>try\<close> block, the handler returns NaN.\<close>

definition money_round_call :: "pyval \<Rightarrow> nat \<Rightarrow> error + pyfloat" where
  "money_round_call x ndigits =
     (case money_round_try x ndigits of Inr f \<Rightarrow> Inr f | Inl e \<Rightarrow> Inr NaN)"

text \<open>
  \<^verbatim>\<open>money_round\<close> reads its argument through \<^verbatim>\<open>str(x)\<close> only, so on an object it is the
  call on the text that \<^verbatim>\<open>str\<close> prints.
\<close>

definition money_round_object :: "pyobject \<Rightarrow> nat \<Rightarrow> error + pyfloat" where
  "money_round_object v ndigits = money_round_call (PyStr (str_object v)) ndigits"

section \<open>Column operations\<close>

text \<open>
  A table is the list of its rows, in row order. pandas works column by column; an
  operation on a column that raises for one cell raises for the table.
\<close>

fun traverse :: "('a \<Rightarrow> error + 'b) \<Rightarrow> 'a list \<Rightarrow> error + 'b list" where
  "traverse f [] = Inr []"
| "traverse f (x # xs) =
     (case f x of
        Inl e \<Rightarrow> Inl e
      | Inr y \<Rightarrow> (case traverse f xs of Inl e \<Rightarrow> Inl e | Inr ys \<Rightarrow> Inr (y # ys)))"

text \<open>\<^verbatim>\<open>pd.to_numeric(column, errors='coerce')\<close> on a text column: NaN stays NaN.\<close>

definition to_numeric :: "libs \<Rightarrow> cell \<Rightarrow> pyfloat" where
  "to_numeric lib v = (case v of None \<Rightarrow> NaN | Some s \<Rightarrow> to_numeric_text lib s)"

text \<open>
  \<^verbatim>\<open>.astype('Int64')\<close>: NaN becomes the missing integer \<^verbatim>\<open><NA>\<close> (\<open>None\<close>), a whole number
  becomes that integer, and anything else raises \<^verbatim>\<open>TypeError\<close> (cannot safely cast).
  Integers are unbounded here; the 64-bit range is outside the model.
\<close>

definition astype_Int64 :: "pyfloat \<Rightarrow> error + int option" where
  "astype_Int64 v =
     (case v of
        NaN \<Rightarrow> Inr None
      | Fin r \<Rightarrow> if of_int \<lfloor>r\<rfloor> = r then Inr (Some \<lfloor>r\<rfloor>) else Inl TypeError
      | PInf \<Rightarrow> Inl TypeError
      | NInf \<Rightarrow> Inl TypeError)"

text \<open>
  \<^verbatim>\<open>.astype(int)\<close> is a cast to a 64-bit integer. NaN and the infinities raise
  \<^verbatim>\<open>IntCastingNaNError\<close>. A finite float is truncated toward zero; when the truncated
  number does not fit in 64 bits the cast gives the least 64-bit integer (what the
  conversion instruction of x86-64 returns for a number out of range).
\<close>

definition truncate_rat :: "rat \<Rightarrow> int" where
  "truncate_rat r = (if r \<ge> 0 then \<lfloor>r\<rfloor> else \<lceil>r\<rceil>)"

definition int64_min :: int where
  "int64_min = - 9223372036854775808"

definition int64_max :: int where
  "int64_max = 9223372036854775807"

definition astype_int :: "pyfloat \<Rightarrow> error + int" where
  "astype_int v =
     (case v of
        Fin r \<Rightarrow> Inr (if int64_min \<le> truncate_rat r \<and> truncate_rat r \<le> int64_max
                      then truncate_rat r else int64_min)
      | _ \<Rightarrow> Inl IntCastingNaNError)"

definition fillna_float :: "pyfloat \<Rightarrow> pyfloat \<Rightarrow> pyfloat" where
  "fillna_float v d = (if v = NaN then d else v)"

text \<open>\<^verbatim>\<open>a.fillna(b)\<close> on columns that hold a value or a missing marker.\<close>

definition fillna :: "'a option \<Rightarrow> 'a option \<Rightarrow> 'a option" where
  "fillna a b = (case a of None \<Rightarrow> b | Some x \<Rightarrow> Some x)"

text \<open>\<^verbatim>\<open>.astype(str)\<close> on a text column turns NaN into the text \<^verbatim>\<open>nan\<close>.\<close>

definition astype_str :: "cell \<Rightarrow> string" where
  "astype_str v = py_str v"

text \<open>\<^verbatim>\<open>.replace({"": np.nan})\<close>\<close>

definition replace_empty :: "string \<Rightarrow> cell" where
  "replace_empty s = (if s = [] then None else Some s)"

text \<open>\<^verbatim>\<open>a + b\<close> on text columns: missing if either side is.\<close>

definition str_add :: "cell \<Rightarrow> cell \<Rightarrow> cell" where
  "str_add a b = (case (a, b) of (Some x, Some y) \<Rightarrow> Some (x @ y) | _ \<Rightarrow> None)"

text \<open>\<^verbatim>\<open>.astype(str)\<close> on a timestamp column: NaT prints as \<^verbatim>\<open>NaT\<close>.\<close>

definition datetime_str :: "libs \<Rightarrow> int option \<Rightarrow> string" where
  "datetime_str lib t = (case t of None \<Rightarrow> ''NaT'' | Some n \<Rightarrow> timestamp_str lib n)"

text \<open>\<^verbatim>\<open>column.isin(values)\<close> for a set of integers: a missing integer is in no such set.\<close>

definition isin :: "int option \<Rightarrow> int set \<Rightarrow> bool" where
  "isin v values = (case v of None \<Rightarrow> False | Some i \<Rightarrow> i \<in> values)"

text \<open>
  \<^verbatim>\<open>df.sort_values(by=column)\<close> with its defaults: ascending, rows with a missing key
  last, in their original order. Rows with equal keys keep their original order in the
  model (pandas does not promise an order among them).
\<close>

definition sort_values :: "('a \<Rightarrow> int option) \<Rightarrow> 'a list \<Rightarrow> 'a list" where
  "sort_values by df =
     sort_key (\<lambda>r. the (by r)) (filter (\<lambda>r. by r \<noteq> None) df) @ filter (\<lambda>r. by r = None) df"

text \<open>
  \<^verbatim>\<open>df.drop_duplicates(subset=[column])\<close> with its default \<^verbatim>\<open>keep='first'\<close>: a row is
  dropped when an earlier row has the same key; two missing keys count as the same.
\<close>

fun drop_duplicates_seen :: "('a \<Rightarrow> 'k) \<Rightarrow> 'k list \<Rightarrow> 'a list \<Rightarrow> 'a list" where
  "drop_duplicates_seen key seen [] = []"
| "drop_duplicates_seen key seen (r # df) =
     (if key r \<in> set seen then drop_duplicates_seen key seen df
      else r # drop_duplicates_seen key (key r # seen) df)"

definition drop_duplicates :: "('a \<Rightarrow> 'k) \<Rightarrow> 'a list \<Rightarrow> 'a list" where
  "drop_duplicates key df = drop_duplicates_seen key [] df"

section \<open>Customers\<close>

record raw_customer =
  rc_customer_id :: cell
  rc_name :: cell
  rc_email :: cell
  rc_phone :: cell
  rc_city :: cell
  rc_state :: cell
  rc_signup_date :: cell

record customer =
  customer_id :: "int option"
  name :: cell
  email :: cell
  phone :: cell
  city :: cell
  state :: cell
  signup_date :: "int option"

text \<open>The column assignments of \<^verbatim>\<open>clean_customers\<close>, for one row.\<close>

definition customer_columns :: "libs \<Rightarrow> raw_customer \<Rightarrow> int option \<Rightarrow> customer" where
  "customer_columns lib r cid =
     \<lparr> customer_id = cid,
       name = replace_empty (strip (astype_str (rc_name r))),
       email = normalize_email (rc_email r),
       phone = normalize_phone lib (rc_phone r) default_region,
       city = replace_empty (title (astype_str (rc_city r))),
       state = replace_empty (title (astype_str (rc_state r))),
       signup_date = parse_date_safe lib (rc_signup_date r) \<rparr>"

text \<open>\<^verbatim>\<open>df['email'].fillna(df['phone'].fillna(df['name'] + df['signup_date'].astype(str)))\<close>\<close>

definition dup_key :: "libs \<Rightarrow> customer \<Rightarrow> cell" where
  "dup_key lib c =
     fillna (email c)
       (fillna (phone c) (str_add (name c) (Some (datetime_str lib (signup_date c)))))"

definition clean_customers :: "libs \<Rightarrow> raw_customer list \<Rightarrow> error + customer list" where
  "clean_customers lib df =
     bind_err (traverse (\<lambda>r. astype_Int64 (to_numeric lib (rc_customer_id r))) df) (\<lambda>ids.
       let rows = map (\<lambda>(r, cid). customer_columns lib r cid) (zip df ids);
           rows = filter (\<lambda>c. customer_id c \<noteq> None \<and> name c \<noteq> None) rows;
           rows = sort_values signup_date rows
       in Inr (drop_duplicates (dup_key lib) rows))"

section \<open>Products\<close>

record raw_product =
  rp_product_id :: cell
  rp_product_name :: cell
  rp_category :: cell
  rp_brand :: cell
  rp_price :: cell
  rp_stock_quantity :: cell

record product =
  product_id :: "int option"
  product_name :: cell
  category :: cell
  brand :: cell
  price :: pyfloat
  stock_quantity :: "int option"

definition product_columns :: "libs \<Rightarrow> raw_product \<Rightarrow> int option \<Rightarrow> int option \<Rightarrow> product" where
  "product_columns lib r pid stock =
     \<lparr> product_id = pid,
       product_name = replace_empty (strip (astype_str (rp_product_name r))),
       category = replace_empty (title (astype_str (rp_category r))),
       brand = replace_empty (title (astype_str (rp_brand r))),
       price = money_round (PyFloat (to_numeric lib (rp_price r))),
       stock_quantity = stock \<rparr>"

definition clean_products :: "libs \<Rightarrow> raw_product list \<Rightarrow> error + product list" where
  "clean_products lib df =
     bind_err (traverse (\<lambda>r. astype_Int64 (to_numeric lib (rp_product_id r))) df) (\<lambda>ids.
     bind_err (traverse (\<lambda>r. astype_Int64 (to_numeric lib (rp_stock_quantity r))) df) (\<lambda>stocks.
       let rows = map (\<lambda>(r, pid, stock). product_columns lib r pid stock) (zip df (zip ids stocks));
           rows = filter (\<lambda>p. product_id p \<noteq> None \<and> product_name p \<noteq> None) rows
       in Inr (drop_duplicates product_id rows)))"

section \<open>Orders\<close>

text \<open>
  \<open>ro_order_timestamp\<close> is the column \<^verbatim>\<open>order_timestamp\<close> of the raw table, or
  \<^verbatim>\<open>order_date\<close> when the table has no \<^verbatim>\<open>order_timestamp\<close>. The \<^verbatim>\<open>order_value\<close> column of
  the raw table is overwritten without being read and is left out.
\<close>

record raw_order =
  ro_order_id :: cell
  ro_customer_id :: cell
  ro_product_id :: cell
  ro_quantity :: cell
  ro_order_timestamp :: cell
  ro_shipping_city :: cell
  ro_payment_method :: cell
  ro_status :: cell

record order_columns =
  order_id :: "int option"
  o_customer_id :: "int option"
  o_product_id :: "int option"
  quantity :: int
  order_timestamp :: "int option"
  shipping_city :: cell
  payment_method :: string
  status :: string

record order = order_columns +
  order_value :: pyfloat

text \<open>\<^verbatim>\<open>pd.to_numeric(df.get('quantity'), errors='coerce').fillna(1).astype(int)\<close>, for one cell.\<close>

definition quantity_column :: "libs \<Rightarrow> cell \<Rightarrow> error + int" where
  "quantity_column lib v = astype_int (fillna_float (to_numeric lib v) (Fin 1))"

definition order_row :: "libs \<Rightarrow> raw_order \<Rightarrow> int option \<Rightarrow> int option \<Rightarrow> int option \<Rightarrow> int \<Rightarrow> order_columns" where
  "order_row lib r oid cid pid qty =
     \<lparr> order_id = oid,
       o_customer_id = cid,
       o_product_id = pid,
       quantity = qty,
       order_timestamp = parse_date_safe lib (ro_order_timestamp r),
       shipping_city = replace_empty (title (astype_str (ro_shipping_city r))),
       payment_method = title (astype_str (ro_payment_method r)),
       status = title (astype_str (ro_status r)) \<rparr>"

text \<open>\<^verbatim>\<open>price * row['quantity']\<close>\<close>

definition mul_quantity :: "pyfloat \<Rightarrow> int \<Rightarrow> pyfloat" where
  "mul_quantity p q =
     (case p of
        Fin r \<Rightarrow> Fin (r * of_int q)
      | PInf \<Rightarrow> if q > 0 then PInf else if q < 0 then NInf else NaN
      | NInf \<Rightarrow> if q > 0 then NInf else if q < 0 then PInf else NaN
      | NaN \<Rightarrow> NaN)"

text \<open>
  \<^verbatim>\<open>compute_value\<close>: \<^verbatim>\<open>int(row['product_id'])\<close> raises on a missing id, and
  \<^verbatim>\<open>price_map.get(pid)\<close> is \<open>None\<close> for a product that has no entry.
\<close>

definition compute_value :: "(int \<Rightarrow> pyfloat option) \<Rightarrow> order_columns \<Rightarrow> error + pyfloat" where
  "compute_value price_map row =
     (case o_product_id row of
        None \<Rightarrow> Inl TypeError
      | Some pid \<Rightarrow>
          (case price_map pid of
             None \<Rightarrow> Inr NaN
           | Some pr \<Rightarrow> Inr (money_round (PyFloat (mul_quantity pr (quantity row))))))"

definition with_order_value :: "order_columns \<Rightarrow> pyfloat \<Rightarrow> order" where
  "with_order_value r v =
     \<lparr> order_id = order_id r,
       o_customer_id = o_customer_id r,
       o_product_id = o_product_id r,
       quantity = quantity r,
       order_timestamp = order_timestamp r,
       shipping_city = shipping_city r,
       payment_method = payment_method r,
       status = status r,
       order_value = v \<rparr>"

text \<open>
  \<^verbatim>\<open>clean_orders\<close>. What pandas does when no row passes the two filters (the row-wise
  \<^verbatim>\<open>apply\<close> of an empty table) is not modelled: the model returns the empty table.
\<close>

definition clean_orders ::
  "libs \<Rightarrow> raw_order list \<Rightarrow> int set \<Rightarrow> int set \<Rightarrow> (int \<Rightarrow> pyfloat option) \<Rightarrow> error + order list" where
  "clean_orders lib df valid_customers valid_products price_map =
     bind_err (traverse (\<lambda>r. astype_Int64 (to_numeric lib (ro_order_id r))) df) (\<lambda>oids.
     bind_err (traverse (\<lambda>r. astype_Int64 (to_numeric lib (ro_customer_id r))) df) (\<lambda>cids.
     bind_err (traverse (\<lambda>r. astype_Int64 (to_numeric lib (ro_product_id r))) df) (\<lambda>pids.
     bind_err (traverse (\<lambda>r. quantity_column lib (ro_quantity r)) df) (\<lambda>qtys.
       let rows = map (\<lambda>(r, oid, cid, pid, qty). order_row lib r oid cid pid qty)
                    (zip df (zip oids (zip cids (zip pids qtys))));
           rows = filter (\<lambda>r. isin (o_customer_id r) valid_customers) rows;
           rows = filter (\<lambda>r. isin (o_product_id r) valid_products) rows
       in bind_err (traverse (compute_value price_map) rows) (\<lambda>values.
            let rows = map (\<lambda>(r, v). with_order_value r v) (zip rows values);
                rows = map (\<lambda>r. r\<lparr>order_timestamp :=
                                    fillna (order_timestamp r) (Some (utc_now lib))\<rparr>) rows;
                rows = sort_values order_timestamp rows
            in Inr (drop_duplicates order_id rows))))))"

section \<open>Analytics\<close>

text \<open>
  \<^verbatim>\<open>analytics\<close> prints a report and assigns to its argument \<^verbatim>\<open>ords\<close>. The caller's table
  is the same object, so the model returns the table as the call leaves it, next to
  what was printed. A table of orders is its rows and, when it has one, its column
  \<^verbatim>\<open>month\<close>; \<^verbatim>\<open>clean_orders\<close> returns a table without that column.
\<close>

record orders_frame =
  frame_rows :: "order list"
  frame_month :: "int option list option"

record summary_row =
  s_product_id :: int
  units_sold :: int
  revenue :: pyfloat
  s_product_name :: cell

record report =
  customers_count :: nat
  products_count :: nat
  orders_count :: nat
  missing_price :: nat
  top_revenue :: "summary_row list option"
  monthly_revenue :: "(int \<times> pyfloat) list option"

definition add_float :: "pyfloat \<Rightarrow> pyfloat \<Rightarrow> pyfloat" where
  "add_float a b =
     (case (a, b) of
        (NaN, _) \<Rightarrow> NaN
      | (_, NaN) \<Rightarrow> NaN
      | (Fin x, Fin y) \<Rightarrow> Fin (x + y)
      | (Fin x, y) \<Rightarrow> y
      | (x, Fin y) \<Rightarrow> x
      | (PInf, PInf) \<Rightarrow> PInf
      | (NInf, NInf) \<Rightarrow> NInf
      | _ \<Rightarrow> NaN)"

text \<open>\<^verbatim>\<open>sum\<close> of a float column: missing values are skipped.\<close>

definition sum_skipna :: "pyfloat list \<Rightarrow> pyfloat" where
  "sum_skipna vs = foldl add_float (Fin 0) (filter (\<lambda>v. v \<noteq> NaN) vs)"

definition float_le :: "pyfloat \<Rightarrow> pyfloat \<Rightarrow> bool" where
  "float_le a b =
     (case (a, b) of
        (NaN, _) \<Rightarrow> False
      | (_, NaN) \<Rightarrow> False
      | (NInf, _) \<Rightarrow> True
      | (_, PInf) \<Rightarrow> True
      | (Fin x, Fin y) \<Rightarrow> x \<le> y
      | _ \<Rightarrow> False)"

text \<open>\<^verbatim>\<open>sort_values(column, ascending=False)\<close> on a float column, missing values last.\<close>

fun insort_desc :: "('a \<Rightarrow> pyfloat) \<Rightarrow> 'a \<Rightarrow> 'a list \<Rightarrow> 'a list" where
  "insort_desc f x [] = [x]"
| "insort_desc f x (y # ys) =
     (if float_le (f y) (f x) then x # y # ys else y # insort_desc f x ys)"

definition sort_values_desc :: "('a \<Rightarrow> pyfloat) \<Rightarrow> 'a list \<Rightarrow> 'a list" where
  "sort_values_desc f df =
     foldr (insort_desc f) (filter (\<lambda>r. f r \<noteq> NaN) df) [] @ filter (\<lambda>r. f r = NaN) df"

text \<open>
  \<^verbatim>\<open>ords.groupby('product_id').agg(units_sold=('quantity', 'sum'),
  revenue=('order_value', 'sum')).reset_index()\<close>: one row per product id that occurs,
  in ascending order of the id; rows with a missing id belong to no group.
\<close>

definition group_products :: "order list \<Rightarrow> (int \<times> int \<times> pyfloat) list" where
  "group_products ords =
     map (\<lambda>pid. (pid,
                 sum_list (map quantity (filter (\<lambda>r. o_product_id r = Some pid) ords)),
                 sum_skipna (map order_value (filter (\<lambda>r. o_product_id r = Some pid) ords))))
       (sort (remdups (concat (map (\<lambda>r. case o_product_id r of
                                             None \<Rightarrow> [] | Some pid \<Rightarrow> [pid]) ords))))"

text \<open>
  \<^verbatim>\<open>summary.merge(prod[['product_id', 'product_name']], on='product_id', how='left')\<close>:
  a row for each product of that id, or one row with a missing name when there is none.
\<close>

definition merge_names :: "product list \<Rightarrow> (int \<times> int \<times> pyfloat) \<Rightarrow> summary_row list" where
  "merge_names prods g =
     (case g of (pid, units, amount) \<Rightarrow>
        (case filter (\<lambda>p. product_id p = Some pid) prods of
           [] \<Rightarrow> [\<lparr> s_product_id = pid, units_sold = units, revenue = amount,
                    s_product_name = None \<rparr>]
         | ps \<Rightarrow> map (\<lambda>p. \<lparr> s_product_id = pid, units_sold = units, revenue = amount,
                             s_product_name = product_name p \<rparr>) ps))"

text \<open>
  \<^verbatim>\<open>ords.groupby('month')['order_value'].sum().reset_index().sort_values('month')\<close>,
  from the column \<^verbatim>\<open>month\<close> just assigned.
\<close>

definition group_months :: "(int option \<times> pyfloat) list \<Rightarrow> (int \<times> pyfloat) list" where
  "group_months mv =
     map (\<lambda>m. (m, sum_skipna (map snd (filter (\<lambda>x. fst x = Some m) mv))))
       (sort (remdups (concat (map (\<lambda>x. case fst x of None \<Rightarrow> [] | Some m \<Rightarrow> [m]) mv))))"

definition analytics ::
  "libs \<Rightarrow> customer list \<Rightarrow> product list \<Rightarrow> orders_frame \<Rightarrow> report \<times> orders_frame" where
  "analytics lib cust prods ords =
     (let rows = frame_rows ords;
          summary =
            (if \<exists>r \<in> set rows. order_value r \<noteq> NaN
             then Some (take 5 (concat (map (merge_names prods)
                          (sort_values_desc (\<lambda>g. snd (snd g)) (group_products rows)))))
             else None);
          months = map (\<lambda>r. map_option (to_period_M lib) (order_timestamp r)) rows;
          has_timestamp = (\<exists>r \<in> set rows. order_timestamp r \<noteq> None);
          ords' = (if has_timestamp then ords\<lparr> frame_month := Some months \<rparr> else ords);
          monthly =
            (if has_timestamp
             then Some (take 6 (group_months (zip months (map order_value rows))))
             else None)
      in (\<lparr> customers_count = length cust,
            products_count = length prods,
            orders_count = length rows,
            missing_price = length (filter (\<lambda>p. price p = NaN) prods),
            top_revenue = summary,
            monthly_revenue = monthly \<rparr>,
          ords'))"

section \<open>The customer cleaner with missing dates first\<close>

text \<open>
  The specification words the sort of the customers as "absent dates sort before all
  present dates". This is \<^verbatim>\<open>clean_customers\<close> with that sort in place of
  \<^const>\<open>sort_values\<close>, to compare the two.
\<close>

definition sort_values_na_first :: "('a \<Rightarrow> int option) \<Rightarrow> 'a list \<Rightarrow> 'a list" where
  "sort_values_na_first by df =
     filter (\<lambda>r. by r = None) df @ sort_key (\<lambda>r. the (by r)) (filter (\<lambda>r. by r \<noteq> None) df)"

definition clean_customers_na_first :: "libs \<Rightarrow> raw_customer list \<Rightarrow> error + customer list" where
  "clean_customers_na_first lib df =
     bind_err (traverse (\<lambda>r. astype_Int64 (to_numeric lib (rc_customer_id r))) df) (\<lambda>ids.
       let rows = map (\<lambda>(r, cid). customer_columns lib r cid) (zip df ids);
           rows = filter (\<lambda>c. customer_id c \<noteq> None \<and> name c \<noteq> None) rows;
           rows = sort_values_na_first signup_date rows
       in Inr (drop_duplicates (dup_key lib) rows))"

section \<open>Sample tables\<close>

text \<open>
  An instance of the library interface to run the cleaners on: numbers are read with the
  grammar of decimal literals, two dates and one phone number are known. On the sample
  cells below it returns what the libraries return.
\<close>

definition sample_libs :: libs where
  "sample_libs =
     \<lparr> to_numeric_text = (\<lambda>s. case Decimal s of
                                   Inr (Finite r) \<Rightarrow> Fin r
                                 | Inr (Infinity neg) \<Rightarrow> (if neg then NInf else PInf)
                                 | _ \<Rightarrow> NaN),
       to_datetime_text = map_of [(''2021-01-01'', 1609459200000000000),
                                  (''2022-01-01'', 1640995200000000000)],
       timestamp_str = (\<lambda>t. if t = 1609459200000000000 then ''2021-01-01 00:00:00+00:00''
                             else if t = 1640995200000000000 then ''2022-01-01 00:00:00+00:00''
                             else ''2023-11-14 22:13:20+00:00''),
       phonenumbers_parse = (\<lambda>s region.
          if s = ''+919876543210'' \<and> region = ''IN''
          then Inr \<lparr> country_code = 91, national_number = 9876543210 \<rparr>
          else Inl NumberParseException),
       is_valid_number = (\<lambda>p. True),
       format_number = (\<lambda>p. ''+919876543210''),
       utc_now = 1700000000000000000,
       to_period_M = (\<lambda>t. if t < 1640995200000000000 then 612 else 624) \<rparr>"

definition sample_customer :: "string \<Rightarrow> string \<Rightarrow> cell \<Rightarrow> cell \<Rightarrow> cell \<Rightarrow> raw_customer" where
  "sample_customer cid nm em ph dt =
     \<lparr> rc_customer_id = Some cid, rc_name = Some nm, rc_email = em, rc_phone = ph,
       rc_city = Some ''pune'', rc_state = Some ''maharashtra'', rc_signup_date = dt \<rparr>"

definition sample_product :: "string \<Rightarrow> string \<Rightarrow> cell \<Rightarrow> raw_product" where
  "sample_product pid nm pr =
     \<lparr> rp_product_id = Some pid, rp_product_name = Some nm, rp_category = Some ''books'',
       rp_brand = None, rp_price = pr, rp_stock_quantity = Some ''5'' \<rparr>"

definition sample_order :: "string \<Rightarrow> string \<Rightarrow> string \<Rightarrow> cell \<Rightarrow> cell \<Rightarrow> cell \<Rightarrow> raw_order" where
  "sample_order oid cid pid qty ts pm =
     \<lparr> ro_order_id = Some oid, ro_customer_id = Some cid, ro_product_id = Some pid,
       ro_quantity = qty, ro_order_timestamp = ts, ro_shipping_city = Some ''new delhi'',
       ro_payment_method = pm, ro_status = None \<rparr>"

definition sample_prices :: "int \<Rightarrow> pyfloat option" where
  "sample_prices = [7 \<mapsto> Fin (1999 / 100)]"

section \<open>Facts about the column operations\<close>

lemma bind_err_Inr:
  "bind_err m f = Inr y \<Longrightarrow> \<exists>x. m = Inr x \<and> f x = Inr y"
  by (cases m) (simp_all add: bind_err_def)

lemma traverse_Inr:
  "traverse f xs = Inr ys \<Longrightarrow>
     ys = map (\<lambda>x. projr (f x)) xs \<and> (\<forall>x \<in> set xs. f x = Inr (projr (f x)))"
  by (induction xs arbitrary: ys) (auto split: sum.splits)

lemma set_drop_duplicates_seen: "set (drop_duplicates_seen key seen xs) \<subseteq> set xs"
  by (induction xs arbitrary: seen) auto

lemma set_drop_duplicates: "set (drop_duplicates key xs) \<subseteq> set xs"
  by (simp add: drop_duplicates_def set_drop_duplicates_seen)

lemma keys_drop_duplicates_seen:
  "key ` set (drop_duplicates_seen key seen xs) = key ` set xs - set seen"
  by (induction xs arbitrary: seen) auto

lemma distinct_drop_duplicates_seen:
  "distinct (map key (drop_duplicates_seen key seen xs))"
proof (induction xs arbitrary: seen)
  case Nil
  show ?case by simp
next
  case (Cons x xs)
  show ?case
  proof (cases "key x \<in> set seen")
    case True
    with Cons show ?thesis by simp
  next
    case False
    have "key x \<notin> key ` set (drop_duplicates_seen key (key x # seen) xs)"
      by (simp add: keys_drop_duplicates_seen)
    with False Cons show ?thesis by simp
  qed
qed

lemma distinct_drop_duplicates: "distinct (map key (drop_duplicates key xs))"
  by (simp add: drop_duplicates_def distinct_drop_duplicates_seen)

lemma distinct_map_Some: "distinct (map Some xs) = distinct xs"
  by (simp add: distinct_map)

lemma set_sort_values: "set (sort_values by xs) = set xs"
  by (auto simp: sort_values_def)

lemma dup_key_Some:
  "name c \<noteq> None \<Longrightarrow>
   dup_key lib c =
     Some (case email c of
             Some e \<Rightarrow> e
           | None \<Rightarrow> (case phone c of
                        Some p \<Rightarrow> p
                      | None \<Rightarrow> the (name c) @ datetime_str lib (signup_date c)))"
  by (auto simp: dup_key_def fillna_def str_add_def split: option.splits)

lemma zip_columns1: "zip xs (map a xs) = map (\<lambda>x. (x, a x)) xs"
  by (induction xs) auto

lemma zip_columns4:
  "zip xs (zip (map a xs) (zip (map b xs) (zip (map c xs) (map d xs)))) =
   map (\<lambda>x. (x, a x, b x, c x, d x)) xs"
  by (induction xs) auto

lemma clean_customers_Inr:
  assumes "clean_customers lib df = Inr out"
  shows "\<exists>rows. out = drop_duplicates (dup_key lib) (sort_values signup_date rows) \<and>
           (\<forall>c \<in> set rows. customer_id c \<noteq> None \<and> name c \<noteq> None) \<and>
           rows = filter (\<lambda>c. customer_id c \<noteq> None \<and> name c \<noteq> None)
                    (map (\<lambda>r. customer_columns lib r
                             (projr (astype_Int64 (to_numeric lib (rc_customer_id r))))) df)"
proof -
  from assms obtain ids where
    ids: "traverse (\<lambda>r. astype_Int64 (to_numeric lib (rc_customer_id r))) df = Inr ids"
    and out: "out = drop_duplicates (dup_key lib) (sort_values signup_date
               (filter (\<lambda>c. customer_id c \<noteq> None \<and> name c \<noteq> None)
                  (map (\<lambda>(r, cid). customer_columns lib r cid) (zip df ids))))"
    unfolding clean_customers_def Let_def by (fastforce dest!: bind_err_Inr)
  from traverse_Inr [OF ids]
  have "ids = map (\<lambda>r. projr (astype_Int64 (to_numeric lib (rc_customer_id r)))) df"
    by simp
  then have "map (\<lambda>(r, cid). customer_columns lib r cid) (zip df ids) =
             map (\<lambda>r. customer_columns lib r
                    (projr (astype_Int64 (to_numeric lib (rc_customer_id r))))) df"
    by (simp add: zip_columns1)
  with out show ?thesis by auto
qed

lemma clean_products_Inr:
  assumes "clean_products lib df = Inr out"
  shows "\<exists>rows. out = drop_duplicates product_id rows \<and>
           (\<forall>p \<in> set rows. product_id p \<noteq> None \<and> product_name p \<noteq> None)"
  using assms unfolding clean_products_def Let_def
  by (fastforce dest!: bind_err_Inr)

lemma clean_orders_Inr:
  assumes "clean_orders lib df valid_customers valid_products price_map = Inr out"
  shows "\<exists>rows vals.
           out = drop_duplicates order_id (sort_values order_timestamp
                   (map (\<lambda>r. r\<lparr>order_timestamp :=
                                 fillna (order_timestamp r) (Some (utc_now lib))\<rparr>)
                      (map (\<lambda>(r, v). with_order_value r v) (zip rows vals)))) \<and>
           rows = filter (\<lambda>r. isin (o_product_id r) valid_products)
                    (filter (\<lambda>r. isin (o_customer_id r) valid_customers)
                       (map (\<lambda>r. order_row lib r
                                (projr (astype_Int64 (to_numeric lib (ro_order_id r))))
                                (projr (astype_Int64 (to_numeric lib (ro_customer_id r))))
                                (projr (astype_Int64 (to_numeric lib (ro_product_id r))))
                                (projr (quantity_column lib (ro_quantity r)))) df)) \<and>
           (\<forall>r \<in> set df.
              astype_Int64 (to_numeric lib (ro_order_id r)) =
                Inr (projr (astype_Int64 (to_numeric lib (ro_order_id r)))) \<and>
              quantity_column lib (ro_quantity r) =
                Inr (projr (quantity_column lib (ro_quantity r))))"
proof -
  from assms obtain oids cids pids qtys vals where
    oids: "traverse (\<lambda>r. astype_Int64 (to_numeric lib (ro_order_id r))) df = Inr oids"
    and cids: "traverse (\<lambda>r. astype_Int64 (to_numeric lib (ro_customer_id r))) df = Inr cids"
    and pids: "traverse (\<lambda>r. astype_Int64 (to_numeric lib (ro_product_id r))) df = Inr pids"
    and qtys: "traverse (\<lambda>r. quantity_column lib (ro_quantity r)) df = Inr qtys"
    and out: "out = drop_duplicates order_id (sort_values order_timestamp
                   (map (\<lambda>r. r\<lparr>order_timestamp :=
                                 fillna (order_timestamp r) (Some (utc_now lib))\<rparr>)
                      (map (\<lambda>(r, v). with_order_value r v)
                         (zip (filter (\<lambda>r. isin (o_product_id r) valid_products)
                                (filter (\<lambda>r. isin (o_customer_id r) valid_customers)
                                   (map (\<lambda>(r, oid, cid, pid, qty). order_row lib r oid cid pid qty)
                                      (zip df (zip oids (zip cids (zip pids qtys))))))) vals))))"
    unfolding clean_orders_def Let_def by (fastforce dest!: bind_err_Inr)
  note t = traverse_Inr [OF oids] traverse_Inr [OF cids] traverse_Inr [OF pids] traverse_Inr [OF qtys]
  have "map (\<lambda>(r, oid, cid, pid, qty). order_row lib r oid cid pid qty)
          (zip df (zip oids (zip cids (zip pids qtys)))) =
        map (\<lambda>r. order_row lib r
                                (projr (astype_Int64 (to_numeric lib (ro_order_id r))))
                                (projr (astype_Int64 (to_numeric lib (ro_customer_id r))))
                                (projr (astype_Int64 (to_numeric lib (ro_product_id r))))
                                (projr (quantity_column lib (ro_quantity r)))) df"
    using t by (simp add: zip_columns4)
  with out t show ?thesis by auto
qed

lemma insort_key_map:
  "insort_key f (g x) (map g xs) = map g (insort_key (\<lambda>a. f (g a)) x xs)"
  by (induction xs) auto

lemma sort_key_map: "sort_key f (map g xs) = map g (sort_key (\<lambda>a. f (g a)) xs)"
  by (induction xs) (auto simp: insort_key_map)

lemma sort_values_map: "sort_values by (map g xs) = map g (sort_values (\<lambda>a. by (g a)) xs)"
  by (simp add: sort_values_def filter_map sort_key_map comp_def)

lemma drop_duplicates_seen_map:
  "drop_duplicates_seen key seen (map g xs) = map g (drop_duplicates_seen (\<lambda>a. key (g a)) seen xs)"
  by (induction xs arbitrary: seen) auto

lemma drop_duplicates_map:
  "drop_duplicates key (map g xs) = map g (drop_duplicates (\<lambda>a. key (g a)) xs)"
  by (simp add: drop_duplicates_def drop_duplicates_seen_map)

lemma length_filter_key_le_1:
  "distinct (map key xs) \<Longrightarrow> length (filter (\<lambda>x. key x = v) xs) \<le> 1"
  by (induction xs) (auto simp: filter_empty_conv image_iff)

lemma length_filter_implies:
  "(\<And>x. x \<in> set xs \<Longrightarrow> P x \<Longrightarrow> Q x) \<Longrightarrow> length (filter P xs) \<le> length (filter Q xs)"
  by (induction xs) auto

lemma sorted_wrt_sort_values:
  "sorted_wrt (\<lambda>a b. case by b of
                        None \<Rightarrow> True
                      | Some t \<Rightarrow> (case by a of None \<Rightarrow> False | Some s \<Rightarrow> s \<le> t))
     (sort_values by xs)"
proof -
  let ?R = "\<lambda>a b. case by b of
                     None \<Rightarrow> True
                   | Some t \<Rightarrow> (case by a of None \<Rightarrow> False | Some s \<Rightarrow> s \<le> (t::int))"
  let ?P = "sort_key (\<lambda>r. the (by r)) (filter (\<lambda>r. by r \<noteq> None) xs)"
  let ?A = "filter (\<lambda>r. by r = None) xs"
  have "sorted (map (\<lambda>r. the (by r)) ?P)"
    by (rule sorted_sort_key)
  then have "sorted_wrt (\<lambda>a b. the (by a) \<le> the (by b)) ?P"
    by (simp add: sorted_map)
  moreover have "\<And>a b. a \<in> set ?P \<Longrightarrow> b \<in> set ?P \<Longrightarrow> the (by a) \<le> the (by b) \<Longrightarrow> ?R a b"
    by auto
  ultimately have p: "sorted_wrt ?R ?P"
    by (rule sorted_wrt_mono_rel [rotated])
  have a: "sorted_wrt ?R ?A"
    by (rule sorted_wrt_mono_rel [where P = "\<lambda>a b. True"]) auto
  have "\<forall>x \<in> set ?P. \<forall>y \<in> set ?A. ?R x y"
    by auto
  with p a show ?thesis
    unfolding sort_values_def sorted_wrt_append by blast
qed

lemma mset_sort_values: "mset (sort_values by xs) = mset xs"
  by (simp add: sort_values_def)

lemma drop_duplicates_seen_nth:
  "drop_duplicates_seen key seen xs =
     map (nth xs) (filter (\<lambda>i. key (xs ! i) \<notin> set seen \<and> (\<forall>j<i. key (xs ! j) \<noteq> key (xs ! i)))
                     [0..<length xs])"
proof (induction xs arbitrary: seen)
  case Nil
  show ?case by simp
next
  case (Cons x xs)
  have upt: "[0..<length (x # xs)] = 0 # map Suc [0..<length xs]"
    by (simp add: upt_conv_Cons map_Suc_upt del: upt_Suc)
  show ?case
  proof (cases "key x \<in> set seen")
    case True
    have "filter (\<lambda>i. key ((x # xs) ! i) \<notin> set seen \<and>
                      (\<forall>j<i. key ((x # xs) ! j) \<noteq> key ((x # xs) ! i)))
            (map Suc [0..<length xs]) =
          map Suc (filter (\<lambda>i. key (xs ! i) \<notin> set seen \<and> (\<forall>j<i. key (xs ! j) \<noteq> key (xs ! i)))
                     [0..<length xs])"
      unfolding filter_map comp_def
      using True by (intro arg_cong [where f = "map Suc"] filter_cong refl)
        (auto simp: less_Suc_eq_0_disj)
    with True Cons.IH [of seen] show ?thesis
      unfolding upt by (simp add: comp_def)
  next
    case False
    have "filter (\<lambda>i. key ((x # xs) ! i) \<notin> set seen \<and>
                      (\<forall>j<i. key ((x # xs) ! j) \<noteq> key ((x # xs) ! i)))
            (map Suc [0..<length xs]) =
          map Suc (filter (\<lambda>i. key (xs ! i) \<notin> set (key x # seen) \<and>
                               (\<forall>j<i. key (xs ! j) \<noteq> key (xs ! i)))
                     [0..<length xs])"
      unfolding filter_map comp_def
      by (intro arg_cong [where f = "map Suc"] filter_cong refl)
        (auto simp: less_Suc_eq_0_disj)
    with False Cons.IH [of "key x # seen"] show ?thesis
      unfolding upt by (simp add: comp_def)
  qed
qed

lemma drop_duplicates_nth:
  "drop_duplicates key xs =
     map (nth xs) (filter (\<lambda>i. \<forall>j<i. key (xs ! j) \<noteq> key (xs ! i)) [0..<length xs])"
  by (simp add: drop_duplicates_def drop_duplicates_seen_nth)

section \<open>Referential integrity of the orders\<close>

text \<open>
  C1. Whatever the raw order rows, the set of valid customers, the set of valid products
  and the price map: every row of the table that \<^verbatim>\<open>clean_orders\<close> returns has a
  \<^verbatim>\<open>customer_id\<close> that is a member of \<^verbatim>\<open>valid_customers\<close> and a \<^verbatim>\<open>product_id\<close> that is a
  member of \<^verbatim>\<open>valid_products\<close>.
\<close>

theorem clean_orders_referential:
  assumes "clean_orders lib df valid_customers valid_products price_map = Inr out"
    and "row \<in> set out"
  shows "(\<exists>c. o_customer_id row = Some c \<and> c \<in> valid_customers) \<and>
         (\<exists>p. o_product_id row = Some p \<and> p \<in> valid_products)"
proof -
  from clean_orders_Inr [OF assms(1)] obtain rows vals where
    out: "out = drop_duplicates order_id (sort_values order_timestamp
            (map (\<lambda>r. r\<lparr>order_timestamp := fillna (order_timestamp r) (Some (utc_now lib))\<rparr>)
              (map (\<lambda>(r, v). with_order_value r v) (zip rows vals))))"
    and rows: "\<forall>r \<in> set rows. isin (o_customer_id r) valid_customers \<and>
                              isin (o_product_id r) valid_products"
    by auto
  from assms(2) out
  have "row \<in> set (map (\<lambda>r. r\<lparr>order_timestamp :=
                                  fillna (order_timestamp r) (Some (utc_now lib))\<rparr>)
                       (map (\<lambda>(r, v). with_order_value r v) (zip rows vals)))"
    using set_drop_duplicates [of order_id "sort_values order_timestamp
            (map (\<lambda>r. r\<lparr>order_timestamp := fillna (order_timestamp r) (Some (utc_now lib))\<rparr>)
              (map (\<lambda>(r, v). with_order_value r v) (zip rows vals)))"]
    unfolding set_sort_values by blast
  then obtain r v where rv: "(r, v) \<in> set (zip rows vals)"
    and row: "row = (with_order_value r v)\<lparr>order_timestamp :=
                 fillna (order_timestamp (with_order_value r v)) (Some (utc_now lib))\<rparr>"
    by auto
  from rv have "r \<in> set rows" by (rule set_zip_leftD)
  with rows have "isin (o_customer_id r) valid_customers" "isin (o_product_id r) valid_products"
    by auto
  moreover from row have "o_customer_id row = o_customer_id r" "o_product_id row = o_product_id r"
    by (simp_all add: with_order_value_def)
  ultimately show ?thesis
    by (auto simp: isin_def split: option.splits)
qed

text \<open>
  Two orders of product 7, one by customer 1 and one by customer 2, cleaned with customer
  1 and product 7 valid: the order of customer 1 is the one row returned.
\<close>

theorem clean_orders_referential_witness:
  "clean_orders sample_libs
     [sample_order ''10'' ''1'' ''7'' (Some ''2'') (Some ''2021-01-01'') (Some ''upi''),
      sample_order ''11'' ''2'' ''7'' (Some ''2'') (Some ''2021-01-01'') (Some ''upi'')]
     {1} {7} sample_prices =
   Inr [\<lparr> order_id = Some 10, o_customer_id = Some 1, o_product_id = Some 7, quantity = 2,
          order_timestamp = Some 1609459200000000000, shipping_city = Some ''New Delhi'',
          payment_method = ''Upi'', status = ''Nan'', order_value = Fin (1999 / 50) \<rparr>] \<and>
   (\<exists>c. o_customer_id
          \<lparr> order_id = Some 10, o_customer_id = Some 1, o_product_id = Some 7, quantity = 2,
            order_timestamp = Some 1609459200000000000, shipping_city = Some ''New Delhi'',
            payment_method = ''Upi'', status = ''Nan'', order_value = Fin (1999 / 50) \<rparr> = Some c \<and>
        c \<in> {1::int}) \<and>
   (\<exists>p. o_product_id
          \<lparr> order_id = Some 10, o_customer_id = Some 1, o_product_id = Some 7, quantity = 2,
            order_timestamp = Some 1609459200000000000, shipping_city = Some ''New Delhi'',
            payment_method = ''Upi'', status = ''Nan'', order_value = Fin (1999 / 50) \<rparr> = Some p \<and>
        p \<in> {7::int})"
proof -
  have run: "clean_orders sample_libs
     [sample_order ''10'' ''1'' ''7'' (Some ''2'') (Some ''2021-01-01'') (Some ''upi''),
      sample_order ''11'' ''2'' ''7'' (Some ''2'') (Some ''2021-01-01'') (Some ''upi'')]
     {1} {7} sample_prices =
   Inr [\<lparr> order_id = Some 10, o_customer_id = Some 1, o_product_id = Some 7, quantity = 2,
          order_timestamp = Some 1609459200000000000, shipping_city = Some ''New Delhi'',
          payment_method = ''Upi'', status = ''Nan'', order_value = Fin (1999 / 50) \<rparr>]"
    by code_simp
  from clean_orders_referential [OF run] run show ?thesis
    by simp
qed

section \<open>Deduplication\<close>

text \<open>
  C2. Whatever the raw tables: no two rows returned by \<^verbatim>\<open>clean_customers\<close> have the same
  dedup key (the email if present, else the phone if present, else the name followed by
  the text of the signup date); no two rows returned by \<^verbatim>\<open>clean_products\<close> have the same
  \<^verbatim>\<open>product_id\<close>; no two rows returned by \<^verbatim>\<open>clean_orders\<close> have the same \<^verbatim>\<open>order_id\<close>.
\<close>

theorem cleaners_deduplicate:
  "(clean_customers lib customers_df = Inr customers \<longrightarrow>
      distinct (map (\<lambda>c. case email c of
                           Some e \<Rightarrow> e
                         | None \<Rightarrow> (case phone c of
                                      Some p \<Rightarrow> p
                                    | None \<Rightarrow> the (name c) @ datetime_str lib (signup_date c)))
                  customers)) \<and>
   (clean_products lib products_df = Inr products \<longrightarrow> distinct (map product_id products)) \<and>
   (clean_orders lib orders_df valid_customers valid_products price_map = Inr orders \<longrightarrow>
      distinct (map order_id orders))"
proof (intro conjI impI)
  assume "clean_customers lib customers_df = Inr customers"
  from clean_customers_Inr [OF this] obtain rows where
    out: "customers = drop_duplicates (dup_key lib) (sort_values signup_date rows)"
    and rows: "\<forall>c \<in> set rows. customer_id c \<noteq> None \<and> name c \<noteq> None"
    by blast
  let ?k = "\<lambda>c. case email c of
                  Some e \<Rightarrow> e
                | None \<Rightarrow> (case phone c of
                             Some p \<Rightarrow> p
                           | None \<Rightarrow> the (name c) @ datetime_str lib (signup_date c))"
  have "set customers \<subseteq> set rows"
    unfolding out using set_drop_duplicates [of "dup_key lib" "sort_values signup_date rows"]
    by (simp add: set_sort_values)
  with rows have "\<forall>c \<in> set customers. name c \<noteq> None"
    by blast
  then have "\<forall>c \<in> set customers. dup_key lib c = Some (?k c)"
    using dup_key_Some [of _ lib] by blast
  then have eq: "map (dup_key lib) customers = map Some (map ?k customers)"
    by simp
  have "distinct (map (dup_key lib) customers)"
    unfolding out by (rule distinct_drop_duplicates)
  then have "distinct (map Some (map ?k customers))"
    by (simp only: eq)
  then show "distinct (map ?k customers)"
    by (simp only: distinct_map_Some)
next
  assume "clean_products lib products_df = Inr products"
  from clean_products_Inr [OF this] show "distinct (map product_id products)"
    by (auto simp: distinct_drop_duplicates)
next
  assume "clean_orders lib orders_df valid_customers valid_products price_map = Inr orders"
  from clean_orders_Inr [OF this] show "distinct (map order_id orders)"
    by (auto simp: distinct_drop_duplicates)
qed

text \<open>
  Three customers of whom two share an email up to letter case, two products with the same
  id and one with a blank name, and two orders with the same id.
\<close>

theorem cleaners_deduplicate_witness:
  "clean_customers sample_libs
     [sample_customer ''1'' ''Ann'' (Some ''a@x.com'') None (Some ''2022-01-01''),
      sample_customer ''2'' ''Bob'' (Some ''A@X.com '') (Some ''+91 98765 43210'')
        (Some ''2021-01-01''),
      sample_customer ''3'' ''Cy'' (Some ''c@x.com'') (Some ''12345'') (Some ''2021-01-01'')] =
   Inr [\<lparr> customer_id = Some 2, name = Some ''Bob'', email = Some ''a@x.com'',
          phone = Some ''+919876543210'', city = Some ''Pune'', state = Some ''Maharashtra'',
          signup_date = Some 1609459200000000000 \<rparr>,
        \<lparr> customer_id = Some 3, name = Some ''Cy'', email = Some ''c@x.com'',
          phone = None, city = Some ''Pune'', state = Some ''Maharashtra'',
          signup_date = Some 1609459200000000000 \<rparr>] \<and>
   clean_products sample_libs
     [sample_product ''7'' '' Atlas '' (Some ''19.995''),
      sample_product ''7'' ''Other'' None,
      sample_product ''8'' ''  '' (Some ''5'')] =
   Inr [\<lparr> product_id = Some 7, product_name = Some ''Atlas'', category = Some ''Books'',
          brand = Some ''Nan'', price = Fin 20, stock_quantity = Some 5 \<rparr>] \<and>
   clean_orders sample_libs
     [sample_order ''10'' ''1'' ''7'' (Some ''2'') (Some ''2022-01-01'') (Some ''upi''),
      sample_order ''10'' ''1'' ''7'' (Some ''3'') (Some ''2021-01-01'') (Some ''cash on delivery'')]
     {1} {7} sample_prices =
   Inr [\<lparr> order_id = Some 10, o_customer_id = Some 1, o_product_id = Some 7, quantity = 3,
          order_timestamp = Some 1609459200000000000, shipping_city = Some ''New Delhi'',
          payment_method = ''Cash On Delivery'', status = ''Nan'',
          order_value = Fin (5997 / 100) \<rparr>] \<and>
   distinct [''a@x.com'', ''c@x.com''] \<and>
   distinct [Some (7::int)] \<and>
   distinct [Some (10::int)]"
proof -
  have customers: "clean_customers sample_libs
     [sample_customer ''1'' ''Ann'' (Some ''a@x.com'') None (Some ''2022-01-01''),
      sample_customer ''2'' ''Bob'' (Some ''A@X.com '') (Some ''+91 98765 43210'')
        (Some ''2021-01-01''),
      sample_customer ''3'' ''Cy'' (Some ''c@x.com'') (Some ''12345'') (Some ''2021-01-01'')] =
   Inr [\<lparr> customer_id = Some 2, name = Some ''Bob'', email = Some ''a@x.com'',
          phone = Some ''+919876543210'', city = Some ''Pune'', state = Some ''Maharashtra'',
          signup_date = Some 1609459200000000000 \<rparr>,
        \<lparr> customer_id = Some 3, name = Some ''Cy'', email = Some ''c@x.com'',
          phone = None, city = Some ''Pune'', state = Some ''Maharashtra'',
          signup_date = Some 1609459200000000000 \<rparr>]"
    by code_simp
  have products: "clean_products sample_libs
     [sample_product ''7'' '' Atlas '' (Some ''19.995''),
      sample_product ''7'' ''Other'' None,
      sample_product ''8'' ''  '' (Some ''5'')] =
   Inr [\<lparr> product_id = Some 7, product_name = Some ''Atlas'', category = Some ''Books'',
          brand = Some ''Nan'', price = Fin 20, stock_quantity = Some 5 \<rparr>]"
    by code_simp
  have orders: "clean_orders sample_libs
     [sample_order ''10'' ''1'' ''7'' (Some ''2'') (Some ''2022-01-01'') (Some ''upi''),
      sample_order ''10'' ''1'' ''7'' (Some ''3'') (Some ''2021-01-01'') (Some ''cash on delivery'')]
     {1} {7} sample_prices =
   Inr [\<lparr> order_id = Some 10, o_customer_id = Some 1, o_product_id = Some 7, quantity = 3,
          order_timestamp = Some 1609459200000000000, shipping_city = Some ''New Delhi'',
          payment_method = ''Cash On Delivery'', status = ''Nan'',
          order_value = Fin (5997 / 100) \<rparr>]"
    by code_simp
  from cleaners_deduplicate [of sample_libs _ _ _ _ _ "{1}" "{7}" sample_prices]
    customers products orders
  show ?thesis
    by simp
qed

section \<open>Order quantities\<close>

text \<open>
  C6 as stated fails: an order whose raw quantity is \<^verbatim>\<open>-3\<close> is returned with the quantity
  \<open>- 3\<close>, which is not positive.
\<close>

theorem clean_orders_quantity_counterexample:
  "clean_orders sample_libs
     [sample_order ''10'' ''1'' ''7'' (Some ''-3'') (Some ''2021-01-01'') (Some ''upi'')]
     {1} {7} sample_prices =
   Inr [\<lparr> order_id = Some 10, o_customer_id = Some 1, o_product_id = Some 7, quantity = - 3,
          order_timestamp = Some 1609459200000000000, shipping_city = Some ''New Delhi'',
          payment_method = ''Upi'', status = ''Nan'',
          order_value = Fin (- (5997 / 100)) \<rparr>] \<and>
   \<not> 0 < quantity
         \<lparr> order_id = Some 10, o_customer_id = Some 1, o_product_id = Some 7, quantity = - 3,
           order_timestamp = Some 1609459200000000000, shipping_city = Some ''New Delhi'',
           payment_method = ''Upi'', status = ''Nan'',
           order_value = Fin (- (5997 / 100)) \<rparr>"
  by code_simp

text \<open>
  C6, amended. In \<^verbatim>\<open>clean_orders\<close> the quantity of every row is an integer: it is 1 when the
  raw quantity is missing or cannot be parsed as a number; it is positive when the raw
  quantity parses to a number that is at least 1 and below \<open>2\<^sup>6\<^sup>3\<close>; and it is zero or
  negative when the raw quantity parses to a number below 1. Every row that
  \<^verbatim>\<open>clean_orders\<close> returns carries the quantity so computed from the raw row it comes from.
\<close>

theorem clean_orders_quantity:
  "(to_numeric lib v = NaN \<longrightarrow> quantity_column lib v = Inr 1) \<and>
   (to_numeric lib v = Fin x \<and> 1 \<le> x \<and> x < 9223372036854775808 \<longrightarrow>
      (\<exists>q. quantity_column lib v = Inr q \<and> 0 < q)) \<and>
   (to_numeric lib v = Fin x \<and> x < 1 \<longrightarrow>
      (\<exists>q. quantity_column lib v = Inr q \<and> q \<le> 0)) \<and>
   (clean_orders lib df valid_customers valid_products price_map = Inr out \<and> row \<in> set out \<longrightarrow>
      (\<exists>r \<in> set df. astype_Int64 (to_numeric lib (ro_order_id r)) = Inr (order_id row) \<and>
                     quantity_column lib (ro_quantity r) = Inr (quantity row)))"
proof (intro conjI impI)
  assume "to_numeric lib v = NaN"
  then show "quantity_column lib v = Inr 1"
    by (simp add: quantity_column_def fillna_float_def astype_int_def truncate_rat_def
        int64_min_def int64_max_def)
next
  assume a: "to_numeric lib v = Fin x \<and> 1 \<le> x \<and> x < 9223372036854775808"
  then have t: "truncate_rat x = \<lfloor>x\<rfloor>"
    by (simp add: truncate_rat_def)
  from a have "1 \<le> \<lfloor>x\<rfloor>"
    by (simp add: le_floor_iff)
  moreover from a have "\<lfloor>x\<rfloor> < 9223372036854775808"
    by (simp add: floor_less_iff)
  ultimately have "int64_min \<le> truncate_rat x \<and> truncate_rat x \<le> int64_max \<and> 0 < truncate_rat x"
    unfolding t by (simp add: int64_min_def int64_max_def)
  with a show "\<exists>q. quantity_column lib v = Inr q \<and> 0 < q"
    by (simp add: quantity_column_def fillna_float_def astype_int_def)
next
  assume a: "to_numeric lib v = Fin x \<and> x < 1"
  have "truncate_rat x \<le> 0"
  proof (cases "x \<ge> 0")
    case True
    from a have "\<lfloor>x\<rfloor> < 1" by (simp add: floor_less_iff)
    with True show ?thesis by (simp add: truncate_rat_def)
  next
    case False
    then have "\<lceil>x\<rceil> \<le> 0" by (simp add: ceiling_le_iff)
    with False show ?thesis by (simp add: truncate_rat_def)
  qed
  then have "(if int64_min \<le> truncate_rat x \<and> truncate_rat x \<le> int64_max
              then truncate_rat x else int64_min) \<le> 0"
    by (simp add: int64_min_def)
  with a show "\<exists>q. quantity_column lib v = Inr q \<and> q \<le> 0"
    by (simp add: quantity_column_def fillna_float_def astype_int_def)
next
  assume a: "clean_orders lib df valid_customers valid_products price_map = Inr out \<and> row \<in> set out"
  from clean_orders_Inr [of lib df valid_customers valid_products price_map out] a
  obtain rows vals where
    out: "out = drop_duplicates order_id (sort_values order_timestamp
            (map (\<lambda>r. r\<lparr>order_timestamp := fillna (order_timestamp r) (Some (utc_now lib))\<rparr>)
              (map (\<lambda>(r, v). with_order_value r v) (zip rows vals))))"
    and rows: "rows = filter (\<lambda>r. isin (o_product_id r) valid_products)
                    (filter (\<lambda>r. isin (o_customer_id r) valid_customers)
                       (map (\<lambda>r. order_row lib r
                                (projr (astype_Int64 (to_numeric lib (ro_order_id r))))
                                (projr (astype_Int64 (to_numeric lib (ro_customer_id r))))
                                (projr (astype_Int64 (to_numeric lib (ro_product_id r))))
                                (projr (quantity_column lib (ro_quantity r)))) df))"
    and cols: "\<forall>r \<in> set df.
              astype_Int64 (to_numeric lib (ro_order_id r)) =
                Inr (projr (astype_Int64 (to_numeric lib (ro_order_id r)))) \<and>
              quantity_column lib (ro_quantity r) =
                Inr (projr (quantity_column lib (ro_quantity r)))"
    by blast
  from a out
  have "row \<in> set (map (\<lambda>r. r\<lparr>order_timestamp :=
                                  fillna (order_timestamp r) (Some (utc_now lib))\<rparr>)
                       (map (\<lambda>(r, v). with_order_value r v) (zip rows vals)))"
    using set_drop_duplicates [of order_id "sort_values order_timestamp
            (map (\<lambda>r. r\<lparr>order_timestamp := fillna (order_timestamp r) (Some (utc_now lib))\<rparr>)
              (map (\<lambda>(r, v). with_order_value r v) (zip rows vals)))"]
    unfolding set_sort_values by blast
  then obtain c w where cw: "(c, w) \<in> set (zip rows vals)"
    and row: "row = (with_order_value c w)\<lparr>order_timestamp :=
                 fillna (order_timestamp (with_order_value c w)) (Some (utc_now lib))\<rparr>"
    by auto
  from cw have "c \<in> set rows" by (rule set_zip_leftD)
  with rows obtain r where r: "r \<in> set df"
    and c: "c = order_row lib r
                  (projr (astype_Int64 (to_numeric lib (ro_order_id r))))
                  (projr (astype_Int64 (to_numeric lib (ro_customer_id r))))
                  (projr (astype_Int64 (to_numeric lib (ro_product_id r))))
                  (projr (quantity_column lib (ro_quantity r)))"
    by auto
  from row c have "order_id row = projr (astype_Int64 (to_numeric lib (ro_order_id r)))"
    and "quantity row = projr (quantity_column lib (ro_quantity r))"
    by (simp_all add: with_order_value_def order_row_def)
  with cols r show "\<exists>r \<in> set df. astype_Int64 (to_numeric lib (ro_order_id r)) = Inr (order_id row) \<and>
                     quantity_column lib (ro_quantity r) = Inr (quantity row)"
    by auto
qed

text \<open>
  The quantities \<^verbatim>\<open>bad\<close>, \<^verbatim>\<open>2.7\<close>, \<^verbatim>\<open>0.5\<close> and \<^verbatim>\<open>-3\<close>, and the order with the quantity
  \<^verbatim>\<open>bad\<close> cleaned.
\<close>

theorem clean_orders_quantity_witness:
  "to_numeric sample_libs (Some ''bad'') = NaN \<and>
   quantity_column sample_libs (Some ''bad'') = Inr 1 \<and>
   to_numeric sample_libs (Some ''2.7'') = Fin (27 / 10) \<and>
   (1::rat) \<le> 27 / 10 \<and> (27 / 10 :: rat) < 9223372036854775808 \<and>
   quantity_column sample_libs (Some ''2.7'') = Inr 2 \<and>
   (\<exists>q. quantity_column sample_libs (Some ''2.7'') = Inr q \<and> 0 < q) \<and>
   to_numeric sample_libs (Some ''0.5'') = Fin (1 / 2) \<and>
   (1 / 2 :: rat) < 1 \<and>
   quantity_column sample_libs (Some ''0.5'') = Inr 0 \<and>
   (\<exists>q. quantity_column sample_libs (Some ''0.5'') = Inr q \<and> q \<le> 0) \<and>
   to_numeric sample_libs (Some ''-3'') = Fin (- 3) \<and>
   quantity_column sample_libs (Some ''-3'') = Inr (- 3) \<and>
   (\<exists>q. quantity_column sample_libs (Some ''-3'') = Inr q \<and> q \<le> 0) \<and>
   clean_orders sample_libs
     [sample_order ''10'' ''1'' ''7'' (Some ''bad'') (Some ''2021-01-01'') (Some ''upi'')]
     {1} {7} sample_prices =
   Inr [\<lparr> order_id = Some 10, o_customer_id = Some 1, o_product_id = Some 7, quantity = 1,
          order_timestamp = Some 1609459200000000000, shipping_city = Some ''New Delhi'',
          payment_method = ''Upi'', status = ''Nan'', order_value = Fin (1999 / 100) \<rparr>] \<and>
   astype_Int64 (to_numeric sample_libs (Some ''10'')) = Inr (Some 10)"
proof -
  have bad: "to_numeric sample_libs (Some ''bad'') = NaN" by code_simp
  have frac: "to_numeric sample_libs (Some ''2.7'') = Fin (27 / 10)" by code_simp
  have half: "to_numeric sample_libs (Some ''0.5'') = Fin (1 / 2)" by code_simp
  have neg: "to_numeric sample_libs (Some ''-3'') = Fin (- 3)" by code_simp
  have v2: "quantity_column sample_libs (Some ''2.7'') = Inr 2" by code_simp
  have v3: "quantity_column sample_libs (Some ''0.5'') = Inr 0" by code_simp
  have v4: "quantity_column sample_libs (Some ''-3'') = Inr (- 3)" by code_simp
  have b1: "(1::rat) \<le> 27 / 10" and b2: "(27 / 10 :: rat) < 9223372036854775808"
    and b3: "(1 / 2 :: rat) < 1" and b4: "(- 3 :: rat) < 1"
    by simp_all
  have run: "clean_orders sample_libs
     [sample_order ''10'' ''1'' ''7'' (Some ''bad'') (Some ''2021-01-01'') (Some ''upi'')]
     {1} {7} sample_prices =
   Inr [\<lparr> order_id = Some 10, o_customer_id = Some 1, o_product_id = Some 7, quantity = 1,
          order_timestamp = Some 1609459200000000000, shipping_city = Some ''New Delhi'',
          payment_method = ''Upi'', status = ''Nan'', order_value = Fin (1999 / 100) \<rparr>]"
    by code_simp
  note t1 = clean_orders_quantity [where lib = sample_libs and v = "Some ''bad''"]
  note t2 = clean_orders_quantity [where lib = sample_libs and v = "Some ''2.7''" and x = "27 / 10"]
  note t3 = clean_orders_quantity [where lib = sample_libs and v = "Some ''0.5''" and x = "1 / 2"]
  note t4 = clean_orders_quantity [where lib = sample_libs and v = "Some ''-3''" and x = "- 3"]
  note q1 = mp [OF conjunct1 [OF t1] bad]
  note q2 = mp [OF conjunct1 [OF conjunct2 [OF t2]] conjI [OF frac conjI [OF b1 b2]]]
  note q3 = mp [OF conjunct1 [OF conjunct2 [OF conjunct2 [OF t3]]] conjI [OF half b3]]
  note q4 = mp [OF conjunct1 [OF conjunct2 [OF conjunct2 [OF t4]]] conjI [OF neg b4]]
  let ?row = "\<lparr> order_id = Some 10, o_customer_id = Some 1, o_product_id = Some 7, quantity = 1,
          order_timestamp = Some 1609459200000000000, shipping_city = Some ''New Delhi'',
          payment_method = ''Upi'', status = ''Nan'', order_value = Fin (1999 / 100) \<rparr>"
  have q5: "astype_Int64 (to_numeric sample_libs (Some ''10'')) = Inr (Some 10)"
    using clean_orders_quantity [where lib = sample_libs
        and df = "[sample_order ''10'' ''1'' ''7'' (Some ''bad'') (Some ''2021-01-01'') (Some ''upi'')]"
        and valid_customers = "{1}" and valid_products = "{7}" and price_map = sample_prices
        and out = "[?row]" and row = "?row"] run
    by (simp add: sample_order_def)
  show ?thesis
    by (intro conjI bad q1 frac b1 b2 v2 q2 half b3 v3 q3 neg v4 q4 run q5)
qed

text \<open>
  A quantity outside the 64-bit range: \<^verbatim>\<open>1e30\<close> is cast to the least 64-bit integer.
\<close>

lemma quantity_column_beyond_int64:
  "quantity_column sample_libs (Some ''1e30'') = Inr (- 9223372036854775808)"
  by code_simp

section \<open>Payment method and status of an order\<close>

text \<open>
  C7. The claim is that an absent raw \<^verbatim>\<open>payment_method\<close> or \<^verbatim>\<open>status\<close> comes out as
  \<^verbatim>\<open>Unknown\<close>. The default \<^verbatim>\<open>"Unknown"\<close> of \<^verbatim>\<open>df.get\<close> stands for a missing column, not for a
  missing cell: \<^verbatim>\<open>astype(str)\<close> turns the missing cell into the text \<^verbatim>\<open>nan\<close>, and the
  order below, with both cells missing, comes out with \<^verbatim>\<open>Nan\<close> in both columns.
\<close>

theorem clean_orders_absent_payment_method:
  "clean_orders sample_libs
     [\<lparr> ro_order_id = Some ''10'', ro_customer_id = Some ''1'', ro_product_id = Some ''7'',
        ro_quantity = Some ''2'', ro_order_timestamp = Some ''2021-01-01'',
        ro_shipping_city = Some ''new delhi'', ro_payment_method = None, ro_status = None \<rparr>]
     {1} {7} sample_prices =
   Inr [\<lparr> order_id = Some 10, o_customer_id = Some 1, o_product_id = Some 7, quantity = 2,
          order_timestamp = Some 1609459200000000000, shipping_city = Some ''New Delhi'',
          payment_method = ''Nan'', status = ''Nan'', order_value = Fin (1999 / 50) \<rparr>]"
  by code_simp

section \<open>Cleaning a cleaned table again\<close>

text \<open>
  C9. The claim is that a cleaner applied to its own output changes nothing. A customer
  whose raw email is blank text is returned with a missing email; the email column of
  that table, normalized again as \<^verbatim>\<open>clean_customers\<close> does first, holds the text
  \<^verbatim>\<open>nan\<close>.
\<close>

theorem clean_customers_twice_email:
  "clean_customers sample_libs
     [sample_customer ''1'' ''Ann'' (Some ''  '') None (Some ''2021-01-01'')] =
   Inr [\<lparr> customer_id = Some 1, name = Some ''Ann'', email = None, phone = None,
          city = Some ''Pune'', state = Some ''Maharashtra'',
          signup_date = Some 1609459200000000000 \<rparr>] \<and>
   normalize_email
     (email \<lparr> customer_id = Some 1, name = Some ''Ann'', email = None, phone = None,
              city = Some ''Pune'', state = Some ''Maharashtra'',
              signup_date = Some 1609459200000000000 \<rparr>) = Some ''nan''"
  by code_simp

section \<open>The tables after analytics\<close>

text \<open>
  C10. The claim is that \<^verbatim>\<open>analytics\<close> leaves its three tables as they were. The
  cleaners copy their argument before assigning to it; \<^verbatim>\<open>analytics\<close> assigns
  \<^verbatim>\<open>ords['month']\<close> on the caller's table. A table of one order with a timestamp, without
  a column \<^verbatim>\<open>month\<close>, has that column after the call.
\<close>

theorem analytics_adds_month:
  "snd (analytics sample_libs [] []
          \<lparr> frame_rows =
              [\<lparr> order_id = Some 10, o_customer_id = Some 1, o_product_id = Some 7,
                 quantity = 2, order_timestamp = Some 1609459200000000000,
                 shipping_city = Some ''New Delhi'', payment_method = ''Upi'',
                 status = ''Completed'', order_value = Fin (1999 / 50) \<rparr>],
            frame_month = None \<rparr>) =
   \<lparr> frame_rows =
       [\<lparr> order_id = Some 10, o_customer_id = Some 1, o_product_id = Some 7,
          quantity = 2, order_timestamp = Some 1609459200000000000,
          shipping_city = Some ''New Delhi'', payment_method = ''Upi'',
          status = ''Completed'', order_value = Fin (1999 / 50) \<rparr>],
     frame_month = Some [Some 612] \<rparr>"
  by code_simp

section \<open>Order and deduplication of the customers\<close>

text \<open>
  C3 as stated fails on the place of the missing dates: \<^verbatim>\<open>sort_values\<close> puts rows with a
  missing \<^verbatim>\<open>signup_date\<close> last, not first. Of two customers with the same email, the first
  without a signup date and the second with one, \<^verbatim>\<open>clean_customers\<close> keeps the second;
  with missing dates first the first would be kept.
\<close>

theorem clean_customers_missing_date_counterexample:
  "clean_customers sample_libs
     [sample_customer ''1'' ''Ann'' (Some ''a@x.com'') None None,
      sample_customer ''2'' ''Bob'' (Some ''A@X.com'') None (Some ''2021-01-01'')] =
   Inr [\<lparr> customer_id = Some 2, name = Some ''Bob'', email = Some ''a@x.com'', phone = None,
          city = Some ''Pune'', state = Some ''Maharashtra'',
          signup_date = Some 1609459200000000000 \<rparr>] \<and>
   clean_customers_na_first sample_libs
     [sample_customer ''1'' ''Ann'' (Some ''a@x.com'') None None,
      sample_customer ''2'' ''Bob'' (Some ''A@X.com'') None (Some ''2021-01-01'')] =
   Inr [\<lparr> customer_id = Some 1, name = Some ''Ann'', email = Some ''a@x.com'', phone = None,
          city = Some ''Pune'', state = Some ''Maharashtra'', signup_date = None \<rparr>]"
  by code_simp

text \<open>
  C3, amended. In \<^verbatim>\<open>clean_customers\<close>, after the rows with a missing \<^verbatim>\<open>customer_id\<close> or
  \<^verbatim>\<open>name\<close> are dropped, the remaining rows are put in ascending order of \<^verbatim>\<open>signup_date\<close>
  with the missing dates after all present dates; the dedup key of each row is its email
  if present, else its phone if present, else its name followed by the text of its signup
  date; and a row is kept exactly when no earlier row in that order has the same key.
\<close>

theorem clean_customers_sorted_first_kept:
  assumes "clean_customers lib df = Inr out"
  shows "\<exists>ids rows.
           traverse (\<lambda>r. astype_Int64 (to_numeric lib (rc_customer_id r))) df = Inr ids \<and>
           mset rows = mset (filter (\<lambda>c. customer_id c \<noteq> None \<and> name c \<noteq> None)
                               (map (\<lambda>(r, cid). customer_columns lib r cid) (zip df ids))) \<and>
           sorted_wrt (\<lambda>a b. case signup_date b of
                                None \<Rightarrow> True
                              | Some t \<Rightarrow> (case signup_date a of None \<Rightarrow> False | Some s \<Rightarrow> s \<le> t))
             rows \<and>
           (\<forall>c \<in> set rows.
              dup_key lib c =
                Some (case email c of
                        Some e \<Rightarrow> e
                      | None \<Rightarrow> (case phone c of
                                   Some p \<Rightarrow> p
                                 | None \<Rightarrow> the (name c) @ datetime_str lib (signup_date c)))) \<and>
           out = map (nth rows)
                   (filter (\<lambda>i. \<forall>j<i. dup_key lib (rows ! j) \<noteq> dup_key lib (rows ! i))
                      [0..<length rows])"
proof -
  from assms obtain ids where
    ids: "traverse (\<lambda>r. astype_Int64 (to_numeric lib (rc_customer_id r))) df = Inr ids"
    and out: "out = drop_duplicates (dup_key lib) (sort_values signup_date
               (filter (\<lambda>c. customer_id c \<noteq> None \<and> name c \<noteq> None)
                  (map (\<lambda>(r, cid). customer_columns lib r cid) (zip df ids))))"
    unfolding clean_customers_def Let_def by (fastforce dest!: bind_err_Inr)
  let ?valid = "filter (\<lambda>c. customer_id c \<noteq> None \<and> name c \<noteq> None)
                  (map (\<lambda>(r, cid). customer_columns lib r cid) (zip df ids))"
  let ?rows = "sort_values signup_date ?valid"
  have "mset ?rows = mset ?valid"
    by (rule mset_sort_values)
  moreover have "sorted_wrt (\<lambda>a b. case signup_date b of
                                None \<Rightarrow> True
                              | Some t \<Rightarrow> (case signup_date a of None \<Rightarrow> False | Some s \<Rightarrow> s \<le> t))
                   ?rows"
    by (rule sorted_wrt_sort_values)
  moreover have "\<forall>c \<in> set ?rows. name c \<noteq> None"
    by (simp add: set_sort_values)
  then have "\<forall>c \<in> set ?rows.
              dup_key lib c =
                Some (case email c of
                        Some e \<Rightarrow> e
                      | None \<Rightarrow> (case phone c of
                                   Some p \<Rightarrow> p
                                 | None \<Rightarrow> the (name c) @ datetime_str lib (signup_date c)))"
    using dup_key_Some [of _ lib] by blast
  moreover have "out = map (nth ?rows)
                   (filter (\<lambda>i. \<forall>j<i. dup_key lib (?rows ! j) \<noteq> dup_key lib (?rows ! i))
                      [0..<length ?rows])"
    unfolding out by (rule drop_duplicates_nth)
  ultimately show ?thesis
    using ids by blast
qed

text \<open>
  Three customers: the first has no signup date and shares the email of the second, the
  third signed up first.
\<close>

theorem clean_customers_sorted_first_kept_witness:
  "clean_customers sample_libs
     [sample_customer ''1'' ''Ann'' (Some ''a@x.com'') None None,
      sample_customer ''2'' ''Bob'' (Some ''A@X.com'') None (Some ''2022-01-01''),
      sample_customer ''3'' ''Cy'' (Some ''c@x.com'') None (Some ''2021-01-01'')] =
   Inr [\<lparr> customer_id = Some 3, name = Some ''Cy'', email = Some ''c@x.com'', phone = None,
          city = Some ''Pune'', state = Some ''Maharashtra'',
          signup_date = Some 1609459200000000000 \<rparr>,
        \<lparr> customer_id = Some 2, name = Some ''Bob'', email = Some ''a@x.com'', phone = None,
          city = Some ''Pune'', state = Some ''Maharashtra'',
          signup_date = Some 1640995200000000000 \<rparr>] \<and>
   (\<exists>ids rows.
      traverse (\<lambda>r. astype_Int64 (to_numeric sample_libs (rc_customer_id r)))
        [sample_customer ''1'' ''Ann'' (Some ''a@x.com'') None None,
         sample_customer ''2'' ''Bob'' (Some ''A@X.com'') None (Some ''2022-01-01''),
         sample_customer ''3'' ''Cy'' (Some ''c@x.com'') None (Some ''2021-01-01'')] = Inr ids \<and>
      mset rows =
        mset (filter (\<lambda>c. customer_id c \<noteq> None \<and> name c \<noteq> None)
                (map (\<lambda>(r, cid). customer_columns sample_libs r cid)
                   (zip [sample_customer ''1'' ''Ann'' (Some ''a@x.com'') None None,
                         sample_customer ''2'' ''Bob'' (Some ''A@X.com'') None (Some ''2022-01-01''),
                         sample_customer ''3'' ''Cy'' (Some ''c@x.com'') None (Some ''2021-01-01'')]
                      ids))) \<and>
      sorted_wrt (\<lambda>a b. case signup_date b of
                           None \<Rightarrow> True
                         | Some t \<Rightarrow> (case signup_date a of None \<Rightarrow> False | Some s \<Rightarrow> s \<le> t))
        rows \<and>
      (\<forall>c \<in> set rows.
         dup_key sample_libs c =
           Some (case email c of
                   Some e \<Rightarrow> e
                 | None \<Rightarrow> (case phone c of
                              Some p \<Rightarrow> p
                            | None \<Rightarrow> the (name c) @ datetime_str sample_libs (signup_date c)))) \<and>
      [\<lparr> customer_id = Some 3, name = Some ''Cy'', email = Some ''c@x.com'', phone = None,
          city = Some ''Pune'', state = Some ''Maharashtra'',
          signup_date = Some 1609459200000000000 \<rparr>,
        \<lparr> customer_id = Some 2, name = Some ''Bob'', email = Some ''a@x.com'', phone = None,
          city = Some ''Pune'', state = Some ''Maharashtra'',
          signup_date = Some 1640995200000000000 \<rparr>] =
      map (nth rows)
        (filter (\<lambda>i. \<forall>j<i. dup_key sample_libs (rows ! j) \<noteq> dup_key sample_libs (rows ! i))
           [0..<length rows]))"
proof -
  have run: "clean_customers sample_libs
     [sample_customer ''1'' ''Ann'' (Some ''a@x.com'') None None,
      sample_customer ''2'' ''Bob'' (Some ''A@X.com'') None (Some ''2022-01-01''),
      sample_customer ''3'' ''Cy'' (Some ''c@x.com'') None (Some ''2021-01-01'')] =
   Inr [\<lparr> customer_id = Some 3, name = Some ''Cy'', email = Some ''c@x.com'', phone = None,
          city = Some ''Pune'', state = Some ''Maharashtra'',
          signup_date = Some 1609459200000000000 \<rparr>,
        \<lparr> customer_id = Some 2, name = Some ''Bob'', email = Some ''a@x.com'', phone = None,
          city = Some ''Pune'', state = Some ''Maharashtra'',
          signup_date = Some 1640995200000000000 \<rparr>]"
    by code_simp
  show ?thesis
    by (intro conjI run clean_customers_sorted_first_kept [OF run])
qed

section \<open>The email of a null marker\<close>

text \<open>
  C4. \<^verbatim>\<open>normalize_email\<close> applied to the null marker NaN (what a blank, \<^verbatim>\<open>NA\<close> or
  \<^verbatim>\<open>NaN\<close> cell is read as, unlike the empty text) returns the text \<^verbatim>\<open>nan\<close>, not a missing
  value. So in \<^verbatim>\<open>clean_customers\<close> every row whose raw email is the null marker
  gets the email \<^verbatim>\<open>nan\<close> and the dedup key \<^verbatim>\<open>nan\<close>, and of the raw rows that survive at
  most one has a null marker for its email.
\<close>

theorem normalize_email_null_marker:
  "normalize_email None = Some ''nan'' \<and>
   normalize_email (safe_read_cell '''') = Some ''nan'' \<and>
   normalize_email (safe_read_cell ''NA'') = Some ''nan'' \<and>
   normalize_email (safe_read_cell ''NaN'') = Some ''nan'' \<and>
   normalize_email (Some '''') = None \<and>
   (rc_email r = None \<longrightarrow>
      email (customer_columns lib r cid) = Some ''nan'' \<and>
      dup_key lib (customer_columns lib r cid) = Some ''nan'') \<and>
   (clean_customers lib df = Inr out \<longrightarrow>
      (\<exists>kept. out = map (\<lambda>r. customer_columns lib r
                               (projr (astype_Int64 (to_numeric lib (rc_customer_id r))))) kept \<and>
              set kept \<subseteq> set df \<and>
              length (filter (\<lambda>r. rc_email r = None) kept) \<le> 1))"
proof (intro conjI impI)
  show nan: "normalize_email None = Some ''nan''"
    by code_simp
  show "normalize_email (safe_read_cell '''') = Some ''nan''"
    and "normalize_email (safe_read_cell ''NA'') = Some ''nan''"
    and "normalize_email (safe_read_cell ''NaN'') = Some ''nan''"
    and "normalize_email (Some '''') = None"
    by code_simp+
  {
    fix r' :: raw_customer and cid'
    assume "rc_email r' = None"
    with nan have "email (customer_columns lib r' cid') = Some ''nan''"
      by (simp add: customer_columns_def)
    then have "email (customer_columns lib r' cid') = Some ''nan'' \<and>
               dup_key lib (customer_columns lib r' cid') = Some ''nan''"
      by (simp add: dup_key_def fillna_def)
  } note key = this
  {
    assume "rc_email r = None"
    from key [OF this] show "email (customer_columns lib r cid) = Some ''nan''"
      and "dup_key lib (customer_columns lib r cid) = Some ''nan''"
      by simp_all
  }
  assume "clean_customers lib df = Inr out"
  let ?g = "\<lambda>r. customer_columns lib r (projr (astype_Int64 (to_numeric lib (rc_customer_id r))))"
  from clean_customers_Inr [OF \<open>clean_customers lib df = Inr out\<close>]
  have "out = drop_duplicates (dup_key lib) (sort_values signup_date
               (filter (\<lambda>c. customer_id c \<noteq> None \<and> name c \<noteq> None) (map ?g df)))"
    by blast
  then have out: "out = map ?g (drop_duplicates (\<lambda>r. dup_key lib (?g r))
                     (sort_values (\<lambda>r. signup_date (?g r))
                        (filter (\<lambda>r. customer_id (?g r) \<noteq> None \<and> name (?g r) \<noteq> None) df)))"
    by (simp only: filter_map comp_def sort_values_map drop_duplicates_map)
  let ?kept = "drop_duplicates (\<lambda>r. dup_key lib (?g r))
                     (sort_values (\<lambda>r. signup_date (?g r))
                        (filter (\<lambda>r. customer_id (?g r) \<noteq> None \<and> name (?g r) \<noteq> None) df))"
  have sub: "set ?kept \<subseteq> set df"
    using set_drop_duplicates [of "\<lambda>r. dup_key lib (?g r)"
        "sort_values (\<lambda>r. signup_date (?g r))
           (filter (\<lambda>r. customer_id (?g r) \<noteq> None \<and> name (?g r) \<noteq> None) df)"]
    by (auto simp: set_sort_values)
  have "distinct (map (\<lambda>r. dup_key lib (?g r)) ?kept)"
    by (rule distinct_drop_duplicates)
  then have "length (filter (\<lambda>r. dup_key lib (?g r) = Some ''nan'') ?kept) \<le> 1"
    by (rule length_filter_key_le_1)
  moreover have "length (filter (\<lambda>r. rc_email r = None) ?kept) \<le>
                 length (filter (\<lambda>r. dup_key lib (?g r) = Some ''nan'') ?kept)"
    by (rule length_filter_implies) (simp add: key)
  ultimately have "length (filter (\<lambda>r. rc_email r = None) ?kept) \<le> 1"
    by (rule order_trans [rotated])
  with out sub show "\<exists>kept. out = map ?g kept \<and> set kept \<subseteq> set df \<and>
              length (filter (\<lambda>r. rc_email r = None) kept) \<le> 1"
    by blast
qed

text \<open>Two customers without an email and a third with one: one of the two survives.\<close>

theorem normalize_email_null_marker_witness:
  "rc_email (sample_customer ''1'' ''Ann'' None None (Some ''2022-01-01'')) = None \<and>
   email (customer_columns sample_libs
            (sample_customer ''1'' ''Ann'' None None (Some ''2022-01-01'')) (Some 1)) =
     Some ''nan'' \<and>
   dup_key sample_libs
     (customer_columns sample_libs
        (sample_customer ''1'' ''Ann'' None None (Some ''2022-01-01'')) (Some 1)) = Some ''nan'' \<and>
   clean_customers sample_libs
     [sample_customer ''1'' ''Ann'' None None (Some ''2022-01-01''),
      sample_customer ''2'' ''Bob'' None None (Some ''2021-01-01''),
      sample_customer ''3'' ''Cy'' (Some ''c@x.com'') None (Some ''2021-01-01'')] =
   Inr [\<lparr> customer_id = Some 2, name = Some ''Bob'', email = Some ''nan'', phone = None,
          city = Some ''Pune'', state = Some ''Maharashtra'',
          signup_date = Some 1609459200000000000 \<rparr>,
        \<lparr> customer_id = Some 3, name = Some ''Cy'', email = Some ''c@x.com'', phone = None,
          city = Some ''Pune'', state = Some ''Maharashtra'',
          signup_date = Some 1609459200000000000 \<rparr>] \<and>
   (\<exists>kept.
      [\<lparr> customer_id = Some 2, name = Some ''Bob'', email = Some ''nan'', phone = None,
          city = Some ''Pune'', state = Some ''Maharashtra'',
          signup_date = Some 1609459200000000000 \<rparr>,
        \<lparr> customer_id = Some 3, name = Some ''Cy'', email = Some ''c@x.com'', phone = None,
          city = Some ''Pune'', state = Some ''Maharashtra'',
          signup_date = Some 1609459200000000000 \<rparr>] =
      map (\<lambda>r. customer_columns sample_libs r
                 (projr (astype_Int64 (to_numeric sample_libs (rc_customer_id r))))) kept \<and>
      set kept \<subseteq>
        set [sample_customer ''1'' ''Ann'' None None (Some ''2022-01-01''),
             sample_customer ''2'' ''Bob'' None None (Some ''2021-01-01''),
             sample_customer ''3'' ''Cy'' (Some ''c@x.com'') None (Some ''2021-01-01'')] \<and>
      length (filter (\<lambda>r. rc_email r = None) kept) \<le> 1)"
proof -
  let ?ann = "sample_customer ''1'' ''Ann'' None None (Some ''2022-01-01'')"
  let ?df = "[?ann,
      sample_customer ''2'' ''Bob'' None None (Some ''2021-01-01''),
      sample_customer ''3'' ''Cy'' (Some ''c@x.com'') None (Some ''2021-01-01'')]"
  let ?out = "[\<lparr> customer_id = Some 2, name = Some ''Bob'', email = Some ''nan'', phone = None,
          city = Some ''Pune'', state = Some ''Maharashtra'',
          signup_date = Some 1609459200000000000 \<rparr>,
        \<lparr> customer_id = Some 3, name = Some ''Cy'', email = Some ''c@x.com'', phone = None,
          city = Some ''Pune'', state = Some ''Maharashtra'',
          signup_date = Some 1609459200000000000 \<rparr>]"
  have null: "rc_email ?ann = None"
    by (simp add: sample_customer_def)
  have run: "clean_customers sample_libs ?df = Inr ?out"
    by code_simp
  note t = normalize_email_null_marker [where r = "?ann" and lib = sample_libs
      and cid = "Some 1" and df = "?df" and out = "?out"]
  note rest = t [THEN conjunct2, THEN conjunct2, THEN conjunct2, THEN conjunct2, THEN conjunct2]
  note a = mp [OF conjunct1 [OF rest] null]
  note b = mp [OF conjunct2 [OF rest] run]
  show ?thesis
    by (intro conjI null conjunct1 [OF a] conjunct2 [OF a] run b)
qed

section \<open>Rounding money\<close>



section \<open>Exceptions and failures in the field normalizers\<close>

lemma not_object_returns: "v \<noteq> PandasNA \<Longrightarrow> \<exists>b. not_object v = Inr b"
  by (cases v) (auto simp: not_object_def)

text \<open>
  C8 as stated fails twice. Not every input makes the normalizers return: on \<^verbatim>\<open>pd.NA\<close> the
  test \<^verbatim>\<open>not v\<close>, which is outside every \<^verbatim>\<open>try\<close>, raises \<^verbatim>\<open>TypeError\<close>. And not every failure
  gives the missing value: a phone whose parse raises comes back as its digits when there
  are 8 or more.
\<close>

theorem normalizers_counterexample:
  "normalize_email_call PandasNA = Inl TypeError \<and>
   normalize_phone_call sample_libs PandasNA default_region = Inl TypeError \<and>
   parse_date_safe_call sample_libs (documented_coerce sample_libs) PandasNA = Inl TypeError \<and>
   phonenumbers_parse sample_libs (keep_digits_plus ''+00 1234 5678'') default_region =
     Inl NumberParseException \<and>
   normalize_phone_call sample_libs (Text ''+00 1234 5678'') default_region =
     Inr (Some ''0012345678'') \<and>
   normalize_phone sample_libs (Some ''+00 1234 5678'') default_region = Some ''0012345678''"
  by code_simp

text \<open>
  C8, amended. On every input that is a text, the NaN null marker or \<^verbatim>\<open>None\<close>,
  \<^verbatim>\<open>normalize_email\<close> and \<^verbatim>\<open>normalize_phone\<close> return normally, and so does \<^verbatim>\<open>parse_date_safe\<close>
  whenever the \<^verbatim>\<open>errors="coerce"\<close> call in its handler returns; \<^verbatim>\<open>money_round\<close> returns
  normally on every input, \<^verbatim>\<open>pd.NA\<close> included. On the cells of a table the calls return what
  the cleaners use. \<^verbatim>\<open>parse_date_safe\<close> does not throw on a parse failure: it ends as the
  \<^verbatim>\<open>errors="coerce"\<close> call ends, with the missing value when that call returns it.
  \<^verbatim>\<open>money_round\<close> returns the missing value when anything in its \<^verbatim>\<open>try\<close> block raises, and
  all of \<^verbatim>\<open>normalize_email\<close>, \<^verbatim>\<open>normalize_phone\<close> and \<^verbatim>\<open>parse_date_safe\<close> return it on blank
  text. \<^verbatim>\<open>normalize_phone\<close>, when the parse raises, returns the digits of the text if there
  are at least 8 and the missing value otherwise.
\<close>

theorem normalizers_return:
  "(v \<noteq> PandasNA \<longrightarrow>
      (\<exists>r. normalize_email_call v = Inr r) \<and>
      (\<exists>r. normalize_phone_call lib v region = Inr r)) \<and>
   (v \<noteq> PandasNA \<and> (\<exists>t. coerce_call v = Inr t) \<longrightarrow>
      (\<exists>r. parse_date_safe_call lib coerce_call v = Inr r)) \<and>
   (\<exists>r. money_round_call x ndigits = Inr r) \<and>
   (\<exists>r. money_round_object v ndigits = Inr r) \<and>
   normalize_email_call (of_cell c) = Inr (normalize_email c) \<and>
   normalize_phone_call lib (of_cell c) region = Inr (normalize_phone lib c region) \<and>
   parse_date_safe_call lib (documented_coerce lib) (of_cell c) = Inr (parse_date_safe lib c) \<and>
   money_round_call x 2 = Inr (money_round x) \<and>
   (to_datetime_call lib v = Inl e \<and> strip (str_object v) \<noteq> [] \<longrightarrow>
      parse_date_safe_call lib coerce_call v = coerce_call v) \<and>
   (to_datetime_call lib v = Inl e \<and> coerce_call v = Inr None \<longrightarrow>
      parse_date_safe_call lib coerce_call v = Inr None) \<and>
   (money_round_try x ndigits = Inl e' \<longrightarrow> money_round_call x ndigits = Inr NaN) \<and>
   (v \<noteq> PandasNA \<and> strip (str_object v) = [] \<longrightarrow>
      normalize_email_call v = Inr None \<and>
      normalize_phone_call lib v region = Inr None \<and>
      parse_date_safe_call lib coerce_call v = Inr None) \<and>
   (v \<noteq> PandasNA \<and>
    phonenumbers_parse lib (keep_digits_plus (str_object v)) region = Inl e'' \<longrightarrow>
      normalize_phone_call lib v region =
        Inr (if not_object v = Inr False \<and> strip (str_object v) \<noteq> [] \<and>
                length (keep_digits (keep_digits_plus (str_object v))) \<ge> 8
             then Some (keep_digits (keep_digits_plus (str_object v))) else None))"
proof (intro conjI impI)
  assume "v \<noteq> PandasNA"
  then obtain b where b: "not_object v = Inr b"
    using not_object_returns by blast
  then show "\<exists>r. normalize_email_call v = Inr r"
    by (simp add: normalize_email_call_def bind_err_def)
  from b show "\<exists>r. normalize_phone_call lib v region = Inr r"
    by (auto simp: normalize_phone_call_def bind_err_def Let_def
        split: sum.splits option.splits)
next
  assume a: "v \<noteq> PandasNA \<and> (\<exists>t. coerce_call v = Inr t)"
  then obtain b where b: "not_object v = Inr b"
    using not_object_returns by blast
  with a show "\<exists>r. parse_date_safe_call lib coerce_call v = Inr r"
    by (auto simp: parse_date_safe_call_def bind_err_def split: sum.splits)
next
  show "\<exists>r. money_round_call x ndigits = Inr r"
    by (simp add: money_round_call_def split: sum.splits)
next
  show "\<exists>r. money_round_object v ndigits = Inr r"
    by (simp add: money_round_object_def money_round_call_def split: sum.splits)
next
  show "normalize_email_call (of_cell c) = Inr (normalize_email c)"
    by (cases c)
      (simp_all add: normalize_email_call_def normalize_email_def of_cell_def not_object_def
        str_object_def py_not_def py_str_def bind_err_def)
next
  show "normalize_phone_call lib (of_cell c) region = Inr (normalize_phone lib c region)"
    by (cases c)
      (auto simp: normalize_phone_call_def normalize_phone_def of_cell_def not_object_def
        str_object_def py_not_def py_str_def bind_err_def Let_def
        split: sum.splits option.splits)
next
  show "parse_date_safe_call lib (documented_coerce lib) (of_cell c) =
        Inr (parse_date_safe lib c)"
    by (cases c)
      (auto simp: parse_date_safe_call_def parse_date_safe_def of_cell_def not_object_def
        str_object_def py_not_def py_str_def bind_err_def to_datetime_call_def
        to_datetime_raise_def to_datetime_coerce_def documented_coerce_def
        split: sum.splits option.splits)
next
  show "money_round_call x 2 = Inr (money_round x)"
    by (simp add: money_round_call_def money_round_def money_round_n_def split: sum.splits)
next
  assume a: "to_datetime_call lib v = Inl e \<and> strip (str_object v) \<noteq> []"
  then obtain s where v: "v = Text s"
    by (cases v) (simp_all add: to_datetime_call_def)
  from a v have "s \<noteq> []"
    by (auto simp: str_object_def strip_def)
  with a v show "parse_date_safe_call lib coerce_call v = coerce_call v"
    by (simp add: parse_date_safe_call_def not_object_def str_object_def bind_err_def)
next
  assume a: "to_datetime_call lib v = Inl e \<and> coerce_call v = Inr None"
  then obtain s where v: "v = Text s"
    by (cases v) (simp_all add: to_datetime_call_def)
  with a show "parse_date_safe_call lib coerce_call v = Inr None"
    by (simp add: parse_date_safe_call_def not_object_def bind_err_def)
next
  assume "money_round_try x ndigits = Inl e'"
  then show "money_round_call x ndigits = Inr NaN"
    by (simp add: money_round_call_def)
next
  assume a: "v \<noteq> PandasNA \<and> strip (str_object v) = []"
  then obtain b where b: "not_object v = Inr b"
    using not_object_returns by blast
  with a show "normalize_email_call v = Inr None"
    by (simp add: normalize_email_call_def bind_err_def)
  from a b show "normalize_phone_call lib v region = Inr None"
    by (simp add: normalize_phone_call_def bind_err_def)
  from a b show "parse_date_safe_call lib coerce_call v = Inr None"
    by (simp add: parse_date_safe_call_def bind_err_def)
next
  assume a: "v \<noteq> PandasNA \<and>
    phonenumbers_parse lib (keep_digits_plus (str_object v)) region = Inl e''"
  then obtain b where b: "not_object v = Inr b"
    using not_object_returns by blast
  with a show "normalize_phone_call lib v region =
        Inr (if not_object v = Inr False \<and> strip (str_object v) \<noteq> [] \<and>
                length (keep_digits (keep_digits_plus (str_object v))) \<ge> 8
             then Some (keep_digits (keep_digits_plus (str_object v))) else None)"
    by (auto simp: normalize_phone_call_def bind_err_def Let_def)
qed

text \<open>
  A blank text, two phones whose parse raises, one of four digits and one of ten, a text
  that is not a date and a text that is not a number.
\<close>

theorem normalizers_return_witness:
  "Text ''  '' \<noteq> PandasNA \<and>
   strip (str_object (Text ''  '')) = [] \<and>
   normalize_email_call (Text ''  '') = Inr None \<and>
   normalize_phone_call sample_libs (Text ''  '') default_region = Inr None \<and>
   parse_date_safe_call sample_libs (documented_coerce sample_libs) (Text ''  '') = Inr None \<and>
   Text ''12-34'' \<noteq> PandasNA \<and>
   phonenumbers_parse sample_libs (keep_digits_plus (str_object (Text ''12-34''))) default_region =
     Inl NumberParseException \<and>
   normalize_phone_call sample_libs (Text ''12-34'') default_region = Inr None \<and>
   Text ''+00 9876 5432'' \<noteq> PandasNA \<and>
   phonenumbers_parse sample_libs (keep_digits_plus (str_object (Text ''+00 9876 5432'')))
     default_region = Inl NumberParseException \<and>
   normalize_phone_call sample_libs (Text ''+00 9876 5432'') default_region =
     Inr (Some ''0098765432'') \<and>
   Text ''soon'' \<noteq> PandasNA \<and>
   to_datetime_call sample_libs (Text ''soon'') = Inl ParserError \<and>
   strip (str_object (Text ''soon'')) \<noteq> [] \<and>
   documented_coerce sample_libs (Text ''soon'') = Inr None \<and>
   parse_date_safe_call sample_libs (documented_coerce sample_libs) (Text ''soon'') =
     documented_coerce sample_libs (Text ''soon'') \<and>
   parse_date_safe_call sample_libs (documented_coerce sample_libs) (Text ''soon'') = Inr None \<and>
   (\<exists>r. normalize_email_call (Text ''soon'') = Inr r) \<and>
   (\<exists>r. normalize_phone_call sample_libs (Text ''soon'') default_region = Inr r) \<and>
   (\<exists>r. parse_date_safe_call sample_libs (documented_coerce sample_libs) (Text ''soon'') = Inr r) \<and>
   money_round_try (PyStr ''abc'') 2 = Inl InvalidOperation \<and>
   money_round_call (PyStr ''abc'') 2 = Inr NaN"
proof -
  have ne: "Text ''  '' \<noteq> PandasNA" "Text ''12-34'' \<noteq> PandasNA"
    "Text ''+00 9876 5432'' \<noteq> PandasNA" "Text ''soon'' \<noteq> PandasNA"
    by simp_all
  have blank: "strip (str_object (Text ''  '')) = []" by code_simp
  have parse2: "phonenumbers_parse sample_libs (keep_digits_plus (str_object (Text ''12-34'')))
                 default_region = Inl NumberParseException"
    by code_simp
  have few: "(if not_object (Text ''12-34'') = Inr False \<and>
                strip (str_object (Text ''12-34'')) \<noteq> [] \<and>
                length (keep_digits (keep_digits_plus (str_object (Text ''12-34'')))) \<ge> 8
              then Some (keep_digits (keep_digits_plus (str_object (Text ''12-34''))))
              else None) = None"
    by code_simp
  have parse3: "phonenumbers_parse sample_libs
                  (keep_digits_plus (str_object (Text ''+00 9876 5432''))) default_region =
                Inl NumberParseException"
    by code_simp
  have many: "(if not_object (Text ''+00 9876 5432'') = Inr False \<and>
                 strip (str_object (Text ''+00 9876 5432'')) \<noteq> [] \<and>
                 length (keep_digits (keep_digits_plus (str_object (Text ''+00 9876 5432''))))
                   \<ge> 8
               then Some (keep_digits (keep_digits_plus (str_object (Text ''+00 9876 5432''))))
               else None) = Some ''0098765432''"
    by code_simp
  have date: "to_datetime_call sample_libs (Text ''soon'') = Inl ParserError" by code_simp
  have nonblank: "strip (str_object (Text ''soon'')) \<noteq> []" by code_simp
  have coerce: "documented_coerce sample_libs (Text ''soon'') = Inr None" by code_simp
  have money: "money_round_try (PyStr ''abc'') 2 = Inl InvalidOperation" by code_simp
  note t1 = normalizers_return [where v = "Text ''  ''" and lib = sample_libs
      and region = default_region and coerce_call = "documented_coerce sample_libs"]
  note t2 = normalizers_return [where v = "Text ''12-34''" and lib = sample_libs
      and region = default_region and e'' = NumberParseException]
  note t3 = normalizers_return [where v = "Text ''+00 9876 5432''" and lib = sample_libs
      and region = default_region and e'' = NumberParseException]
  note t4 = normalizers_return [where v = "Text ''soon''" and lib = sample_libs
      and region = default_region and coerce_call = "documented_coerce sample_libs"
      and e = ParserError and x = "PyStr ''abc''" and ndigits = 2 and e' = InvalidOperation]
  note a = mp [OF t1 [THEN conjunct2, THEN conjunct2, THEN conjunct2, THEN conjunct2,
      THEN conjunct2, THEN conjunct2, THEN conjunct2, THEN conjunct2,
      THEN conjunct2, THEN conjunct2, THEN conjunct2, THEN conjunct1] conjI [OF ne(1) blank]]
  note p2 = mp [OF t2 [THEN conjunct2, THEN conjunct2, THEN conjunct2, THEN conjunct2,
      THEN conjunct2, THEN conjunct2, THEN conjunct2, THEN conjunct2,
      THEN conjunct2, THEN conjunct2, THEN conjunct2, THEN conjunct2] conjI [OF ne(2) parse2]]
  note p3 = mp [OF t3 [THEN conjunct2, THEN conjunct2, THEN conjunct2, THEN conjunct2,
      THEN conjunct2, THEN conjunct2, THEN conjunct2, THEN conjunct2,
      THEN conjunct2, THEN conjunct2, THEN conjunct2, THEN conjunct2] conjI [OF ne(3) parse3]]
  note r1 = mp [OF t4 [THEN conjunct1] ne(4)]
  have ex: "\<exists>t. documented_coerce sample_libs (Text ''soon'') = Inr t"
    using coerce by simp
  note r2 = mp [OF t4 [THEN conjunct2, THEN conjunct1] conjI [OF ne(4) ex]]
  note g = mp [OF t4 [THEN conjunct2, THEN conjunct2, THEN conjunct2, THEN conjunct2,
      THEN conjunct2, THEN conjunct2, THEN conjunct2, THEN conjunct2,
      THEN conjunct1] conjI [OF date nonblank]]
  note c = mp [OF t4 [THEN conjunct2, THEN conjunct2, THEN conjunct2, THEN conjunct2,
      THEN conjunct2, THEN conjunct2, THEN conjunct2, THEN conjunct2,
      THEN conjunct2, THEN conjunct1] conjI [OF date coerce]]
  note d = mp [OF t4 [THEN conjunct2, THEN conjunct2, THEN conjunct2, THEN conjunct2,
      THEN conjunct2, THEN conjunct2, THEN conjunct2, THEN conjunct2,
      THEN conjunct2, THEN conjunct2, THEN conjunct1] money]
  show ?thesis
    by (intro conjI ne blank conjunct1 [OF a] conjunct1 [OF conjunct2 [OF a]]
        conjunct2 [OF conjunct2 [OF a]] parse2 p2 [unfolded few] parse3 p3 [unfolded many]
        date nonblank coerce g c conjunct1 [OF r1] conjunct2 [OF r1] r2 money d)
qed

end
